theory Spec2Isabelle
  imports Complex_Main "HOL-Library.Product_Lexorder"
begin

section \<open>Text\<close>

text \<open>
  A Python \<open>str\<close> is a sequence of code points. The model reads a \<open>char\<close> as the code
  point of the same number, so a \<open>string\<close> here is a text over U+0000..U+00FF; the
  character classes below are the ones of \<open>str.isspace\<close>, \<open>str.isdigit\<close>,
  \<open>str.lower\<close> and of the \<open>re\<close> module on that range.
\<close>

definition cp :: "char \<Rightarrow> nat" where
  "cp c = of_char c"

definition is_space :: "char \<Rightarrow> bool" where
  "is_space c = (let n = cp c in (9 \<le> n \<and> n \<le> 13) \<or> (28 \<le> n \<and> n \<le> 32) \<or> n = 133 \<or> n = 160)"

definition is_decimal_digit :: "char \<Rightarrow> bool" where
  "is_decimal_digit c = (let n = cp c in 48 \<le> n \<and> n \<le> 57)"

definition py_isdigit :: "char \<Rightarrow> bool" where
  "py_isdigit c = (let n = cp c in (48 \<le> n \<and> n \<le> 57) \<or> n = 178 \<or> n = 179 \<or> n = 185)"

definition py_lower_char :: "char \<Rightarrow> char" where
  "py_lower_char c = (let n = cp c in
     if (65 \<le> n \<and> n \<le> 90) \<or> (192 \<le> n \<and> n \<le> 222 \<and> n \<noteq> 215) then char_of (n + 32) else c)"

definition py_lower :: "string \<Rightarrow> string" where
  "py_lower s = map py_lower_char s"

definition py_strip :: "string \<Rightarrow> string" where
  "py_strip s = rev (dropWhile is_space (rev (dropWhile is_space s)))"

text \<open>\<open>re.sub(r'\s+', ' ', s)\<close>: every maximal run of whitespace becomes one blank. The flag
  says that the previous character belonged to a run already replaced.\<close>

fun sub_spaces_from :: "bool \<Rightarrow> string \<Rightarrow> string" where
  "sub_spaces_from in_run [] = []"
| "sub_spaces_from in_run (c # cs) =
     (if is_space c then (if in_run then sub_spaces_from True cs else CHR '' '' # sub_spaces_from True cs)
      else c # sub_spaces_from False cs)"

definition sub_spaces :: "string \<Rightarrow> string" where
  "sub_spaces s = sub_spaces_from False s"

section \<open>Decimal numbers\<close>

text \<open>
  A finite \<open>decimal.Decimal\<close>: sign, coefficient and exponent, with the value
  \<open>(-1)^sign * coefficient * 10^exponent\<close>. Arithmetic runs in Python's default context:
  precision 28, rounding to the nearest with ties to even, exponents from -999999 to
  999999, and an overflow raised as an exception.
\<close>

datatype decimal = Decimal (dsign: bool) (coef: nat) (expo: int)

datatype error = Overflow | InvalidOperation | IndexError

definition dec_prec :: int where "dec_prec = 28"
definition dec_Emax :: int where "dec_Emax = 999999"
definition dec_Emin :: int where "dec_Emin = - 999999"
definition dec_Etiny :: int where "dec_Etiny = dec_Emin - dec_prec + 1"
definition dec_Etop :: int where "dec_Etop = dec_Emax - dec_prec + 1"

fun ndigits :: "nat \<Rightarrow> nat" where
  "ndigits n = (if n < 10 then 1 else Suc (ndigits (n div 10)))"

declare ndigits.simps [simp del]

text \<open>Rounding a result to the context (\<open>Decimal._fix\<close>).\<close>

definition dec_fix :: "decimal \<Rightarrow> error + decimal" where
  "dec_fix d =
     (if coef d = 0 then Inr (Decimal (dsign d) 0 (min (max (expo d) dec_Etiny) dec_Emax))
      else
        let exp_min = int (ndigits (coef d)) + expo d - dec_prec in
        if exp_min > dec_Etop then Inl Overflow
        else
          let exp_min = max exp_min dec_Etiny in
          if expo d < exp_min then
            let digits = int (ndigits (coef d)) + expo d - exp_min;
                c = (if digits < 0 then 1 else coef d);
                e = (if digits < 0 then exp_min - 1 else expo d);
                cut = nat (exp_min - e);
                q = c div 10 ^ cut;
                r = c mod 10 ^ cut;
                half = 5 * 10 ^ (cut - 1);
                up = (r > half \<or> (r = half \<and> odd q));
                coeff = (if up then q + 1 else q);
                longer = (int (ndigits coeff) > dec_prec);
                coeff = (if longer then coeff div 10 else coeff);
                exp_min = (if longer then exp_min + 1 else exp_min)
            in if exp_min > dec_Etop then Inl Overflow
               else Inr (Decimal (dsign d) coeff exp_min)
          else Inr d)"

definition dec_mul :: "decimal \<Rightarrow> decimal \<Rightarrow> error + decimal" where
  "dec_mul a b = dec_fix (Decimal (dsign a \<noteq> dsign b) (coef a * coef b) (expo a + expo b))"

text \<open>\<open>d > 0\<close> and the truth value of a decimal (\<open>bool(d)\<close> is false exactly for zero).\<close>

definition dec_positive :: "decimal \<Rightarrow> bool" where
  "dec_positive d = (\<not> dsign d \<and> coef d > 0)"

definition dec_truthy :: "decimal \<Rightarrow> bool" where
  "dec_truthy d = (coef d \<noteq> 0)"

definition dec_value :: "decimal \<Rightarrow> rat" where
  "dec_value d = (if dsign d then - 1 else 1) * of_nat (coef d) *
     (if expo d \<ge> 0 then 10 ^ nat (expo d) else 1 / 10 ^ nat (- expo d))"

section \<open>Budget items\<close>

text \<open>The dictionary every extraction strategy builds: six keys, the three amounts
  possibly \<open>None\<close>.\<close>

record item =
  code :: string
  description :: string
  unit :: string
  quantity :: "decimal option"
  unit_price :: "decimal option"
  total_price :: "decimal option"

text \<open>\<open>len(item)\<close>, the number of keys of the dictionary.\<close>

definition item_len :: "item \<Rightarrow> nat" where
  "item_len it = 6"

text \<open>The truth value of an optional amount: \<open>None\<close> and zero are false.\<close>

definition opt_truthy :: "decimal option \<Rightarrow> bool" where
  "opt_truthy v = (case v of None \<Rightarrow> False | Some d \<Rightarrow> dec_truthy d)"

definition is_valid_item :: "item \<Rightarrow> bool" where
  "is_valid_item it =
     (let has_description = (py_strip (description it) \<noteq> []);
          has_quantity = (case quantity it of None \<Rightarrow> False | Some q \<Rightarrow> dec_positive q);
          has_price = (case unit_price it of None \<Rightarrow> False | Some p \<Rightarrow> dec_positive p)
      in has_description \<and> (has_quantity \<or> has_price))"

definition unit_mapping :: "(string \<times> string) list" where
  "unit_mapping =
     [(''metros cuadrados'', ''m2''),
      (''metros c'' @ [CHR 0xFA] @ ''bicos'', ''m3''),
      (''kilogramos'', ''kg''),
      (''litros'', ''l''),
      (''unidades'', ''un''),
      (''metros'', ''m'')]"

definition digit_char :: "nat \<Rightarrow> char" where
  "digit_char n = char_of (48 + n)"

fun str_nat :: "nat \<Rightarrow> string" where
  "str_nat n = (if n < 10 then [digit_char n] else str_nat (n div 10) @ [digit_char (n mod 10)])"

declare str_nat.simps [simp del]

text \<open>The format \<open>{n:03d}\<close>: decimal digits, padded with zeros to three places.\<close>

definition fmt_03d :: "nat \<Rightarrow> string" where
  "fmt_03d n = replicate (3 - length (str_nat n)) (CHR ''0'') @ str_nat n"

definition clean_item :: "item \<Rightarrow> error + item" where
  "clean_item it =
     (let cleaned = it\<lparr>description := py_strip (sub_spaces (description it))\<rparr>;
          u = py_lower (unit cleaned);
          cleaned = cleaned\<lparr>unit := (case map_of unit_mapping u of Some v \<Rightarrow> v | None \<Rightarrow> unit cleaned)\<rparr>;
          priced =
            (if opt_truthy (quantity cleaned) \<and> opt_truthy (unit_price cleaned)
                \<and> \<not> opt_truthy (total_price cleaned)
             then (case dec_mul (the (quantity cleaned)) (the (unit_price cleaned)) of
                     Inl e \<Rightarrow> Inl e
                   | Inr t \<Rightarrow> Inr (cleaned\<lparr>total_price := Some t\<rparr>))
             else Inr cleaned)
      in case priced of
           Inl e \<Rightarrow> Inl e
         | Inr cleaned \<Rightarrow>
             Inr (if code cleaned = []
                  then cleaned\<lparr>code := ''AUTO_'' @ fmt_03d (item_len cleaned + 1)\<rparr>
                  else cleaned))"

text \<open>The first loop of \<open>_validate_and_clean_items\<close>: valid items are cleaned and kept; an
  exception of \<open>_clean_item\<close> leaves the loop.\<close>

fun validated_items :: "item list \<Rightarrow> error + item list" where
  "validated_items [] = Inr []"
| "validated_items (it # its) =
     (if is_valid_item it then
        (case clean_item it of
           Inl e \<Rightarrow> Inl e
         | Inr cleaned_item \<Rightarrow>
             (case validated_items its of Inl e \<Rightarrow> Inl e | Inr rest \<Rightarrow> Inr (cleaned_item # rest)))
      else validated_items its)"

definition item_key :: "item \<Rightarrow> string" where
  "item_key it = code it @ ''_'' @ take 50 (description it)"

text \<open>The second loop: the first item of every key is kept, \<open>seen_items\<close> is the set of keys
  met so far.\<close>

fun unique_items :: "string set \<Rightarrow> item list \<Rightarrow> item list" where
  "unique_items seen_items [] = []"
| "unique_items seen_items (it # its) =
     (if item_key it \<notin> seen_items then it # unique_items (insert (item_key it) seen_items) its
      else unique_items seen_items its)"

definition validate_and_clean_items :: "item list \<Rightarrow> error + item list" where
  "validate_and_clean_items items =
     (case validated_items items of
        Inl e \<Rightarrow> Inl e
      | Inr validated \<Rightarrow> Inr (unique_items {} validated))"

section \<open>Scanned documents (\<open>pdf_reader.py\<close>)\<close>

record page_entry =
  page_number :: nat
  page_text :: string
  text_length :: nat

text \<open>What the file system holds under a path: the size in bytes and, when the PDF
  library can open the file, the text of every page.\<close>

record stored_file =
  stored_size :: nat
  stored_pages :: "string list option"

datatype read_error = FileNotFoundError | ValueError nat | OpenError

text \<open>The result of \<open>read_pdf\<close>, without the metadata of the PDF library, the file name
  and the processing time, which no property below reads.\<close>

record document =
  file_path :: string
  file_size :: nat
  doc_pages :: "page_entry list"
  total_pages :: nat
  is_scanned :: bool
  extracted_text :: string

definition max_file_size :: nat where
  "max_file_size = 50 * 1024 * 1024"

definition detect_scanned_pdf :: "page_entry list \<Rightarrow> bool" where
  "detect_scanned_pdf pages_text =
     (if pages_text = [] then True
      else
        let total_text_length = sum_list (map text_length pages_text);
            avg_text_length = (of_nat total_text_length :: rat) / of_nat (length pages_text)
        in avg_text_length < 100)"

text \<open>The loop of \<open>read_pdf\<close> over the pages, \<open>page_num\<close> counting from the given start.\<close>

fun pages_from :: "nat \<Rightarrow> string list \<Rightarrow> page_entry list" where
  "pages_from page_num [] = []"
| "pages_from page_num (t # ts) =
     \<lparr>page_number = page_num + 1, page_text = t, text_length = length t\<rparr>
       # pages_from (page_num + 1) ts"

fun join_with :: "string \<Rightarrow> string list \<Rightarrow> string" where
  "join_with sep [] = []"
| "join_with sep [s] = s"
| "join_with sep (s # t # ts) = s @ sep @ join_with sep (t # ts)"

definition read_pdf :: "(string \<rightharpoonup> stored_file) \<Rightarrow> string \<Rightarrow> read_error + document" where
  "read_pdf fs path =
     (case fs path of
        None \<Rightarrow> Inl FileNotFoundError
      | Some f \<Rightarrow>
          if stored_size f > max_file_size then Inl (ValueError (stored_size f))
          else
            (case stored_pages f of
               None \<Rightarrow> Inl OpenError
             | Some texts \<Rightarrow>
                 let pages_text = pages_from 0 texts
                 in Inr \<lparr>file_path = path,
                         file_size = stored_size f,
                         doc_pages = pages_text,
                         total_pages = length pages_text,
                         is_scanned = detect_scanned_pdf pages_text,
                         extracted_text = join_with [CHR 0x0A] (map page_text pages_text)\<rparr>))"

text \<open>The average length of the extractable text per page, as the specification words it;
  it is read from the texts themselves.\<close>

definition average_text_length :: "document \<Rightarrow> rat" where
  "average_text_length doc =
     of_nat (sum_list (map (\<lambda>p. length (page_text p)) (doc_pages doc))) / of_nat (length (doc_pages doc))"

section \<open>Recognised text (\<open>ocr_processor.py\<close>)\<close>

text \<open>
  The recogniser returns a table in columns (\<open>level\<close>, \<open>conf\<close>, \<open>text\<close>, \<open>left\<close>,
  \<open>top\<close>, \<open>width\<close>, \<open>height\<close>, \<open>line_num\<close>), one entry per box in every column;
  \<open>ocr_row\<close> is row \<open>i\<close> of that table. The confidences are integers, from -1 to 100,
  as the recogniser's table has them.
\<close>

record ocr_row =
  row_level :: int
  row_conf :: int
  row_text :: string
  row_left :: int
  row_top :: int
  row_width :: int
  row_height :: int
  row_line_num :: int

record word_info =
  word_text :: string
  confidence :: int
  word_x :: int
  word_y :: int
  word_width :: int
  word_height :: int
  word_line_num :: int

record line_info =
  line_number :: int
  line_text :: string
  line_words :: "word_info list"
  y_position :: int

record processed_data =
  proc_words :: "word_info list"
  proc_lines :: "line_info list"
  average_confidence :: rat

definition word_of_row :: "ocr_row \<Rightarrow> word_info" where
  "word_of_row r =
     \<lparr>word_text = py_strip (row_text r), confidence = row_conf r, word_x = row_left r, word_y = row_top r,
      word_width = row_width r, word_height = row_height r, word_line_num = row_line_num r\<rparr>"

text \<open>The loop over the boxes: the state is the list of words, the sum of their confidences
  and their number.\<close>

fun ocr_loop :: "ocr_row list \<Rightarrow> word_info list \<times> int \<times> nat \<Rightarrow> word_info list \<times> int \<times> nat" where
  "ocr_loop [] st = st"
| "ocr_loop (r # rs) (ws, total_confidence, valid_words) =
     (if row_conf r > 0 then
        (let wi = word_of_row r in
         if word_text wi \<noteq> [] then
           ocr_loop rs (ws @ [wi], total_confidence + row_conf r, valid_words + 1)
         else ocr_loop rs (ws, total_confidence, valid_words))
      else ocr_loop rs (ws, total_confidence, valid_words))"

definition line_of :: "word_info list \<Rightarrow> int \<Rightarrow> line_info" where
  "line_of ws n =
     (let lws = sort_key word_x (filter (\<lambda>w. word_line_num w = n) ws)
      in \<lparr>line_number = n,
          line_text = join_with '' '' (map word_text lws),
          line_words = lws,
          y_position = (case lws of [] \<Rightarrow> 0 | w # _ \<Rightarrow> word_y w)\<rparr>)"

text \<open>
  The quotient \<open>a / b\<close> of two integers is a float: the double nearest to the exact
  quotient, a tie going to the even significand of 53 bits. \<open>float_exponent a b\<close> is the
  \<open>e\<close> with \<open>2^(e-1) \<le> a/b < 2^e\<close>, for positive \<open>a\<close> and \<open>b\<close>. The value of the float is kept
  as a rational number. Quotients outside the normal range of doubles (below \<open>2^-1022\<close>,
  or \<open>2^1024\<close> and above, where Python raises \<open>OverflowError\<close>) and the division by zero are
  left out: the only division is of a sum of confidences by a positive number of tokens.
\<close>

fun bit_length :: "nat \<Rightarrow> nat" where
  "bit_length n = (if n = 0 then 0 else Suc (bit_length (n div 2)))"

declare bit_length.simps [simp del]

definition round_half_even :: "nat \<Rightarrow> nat \<Rightarrow> nat" where
  "round_half_even num den =
     (if den < 2 * (num mod den) \<or> (2 * (num mod den) = den \<and> odd (num div den))
      then num div den + 1 else num div den)"

definition float_exponent :: "nat \<Rightarrow> nat \<Rightarrow> int" where
  "float_exponent a b =
     (if (if bit_length b \<le> bit_length a
          then b * 2 ^ (bit_length a - bit_length b) \<le> a
          else b \<le> a * 2 ^ (bit_length b - bit_length a))
      then int (bit_length a) - int (bit_length b) + 1
      else int (bit_length a) - int (bit_length b))"

definition nat_truediv :: "nat \<Rightarrow> nat \<Rightarrow> rat" where
  "nat_truediv a b =
     (if a = 0 then 0
      else if float_exponent a b \<le> 53
      then of_nat (round_half_even (a * 2 ^ nat (53 - float_exponent a b)) b)
             / 2 ^ nat (53 - float_exponent a b)
      else of_nat (round_half_even a (b * 2 ^ nat (float_exponent a b - 53)))
             * 2 ^ nat (float_exponent a b - 53))"

definition py_truediv :: "int \<Rightarrow> int \<Rightarrow> rat" where
  "py_truediv a b =
     (if (a < 0) = (b < 0) then nat_truediv (nat \<bar>a\<bar>) (nat \<bar>b\<bar>)
      else - nat_truediv (nat \<bar>a\<bar>) (nat \<bar>b\<bar>))"

definition process_ocr_data :: "ocr_row list \<Rightarrow> processed_data" where
  "process_ocr_data ocr_data =
     (case ocr_loop ocr_data ([], 0, 0) of
        (ws, total_confidence, valid_words) \<Rightarrow>
          \<lparr>proc_words = sort_key (\<lambda>w. (word_y w, word_x w)) ws,
           proc_lines = map (line_of ws) (sort (remdups (map word_line_num ws))),
           average_confidence =
             (if valid_words > 0 then py_truediv total_confidence (int valid_words) else 0)\<rparr>)"

text \<open>
  \<open>process_image\<close> opens the image and calls the recogniser; both are outside the
  program. \<open>recognise\<close> stands for them: for a path it gives either the message of the
  exception raised or the image size, the table of boxes and the full text. The two
  entries \<open>budget_patterns\<close> and \<open>tables_detected\<close> of the result are not modelled.
\<close>

record ocr_result =
  image_path :: string
  image_size :: "nat \<times> nat"
  result_text :: string
  result_confidence :: rat
  word_count :: nat
  result_lines :: "line_info list"
  result_words :: "word_info list"

datatype page_result =
    Page_ok ocr_result
  | Page_error string string string rat

type_synonym recogniser = "string \<Rightarrow> string + ((nat \<times> nat) \<times> ocr_row list \<times> string)"

definition process_image :: "recogniser \<Rightarrow> string \<Rightarrow> string + ocr_result" where
  "process_image recognise path =
     (case recognise path of
        Inl e \<Rightarrow> Inl e
      | Inr (img_size, ocr_data, full_text) \<Rightarrow>
          let processed = process_ocr_data ocr_data
          in Inr \<lparr>image_path = path,
                  image_size = img_size,
                  result_text = full_text,
                  result_confidence = average_confidence processed,
                  word_count = length (proc_words processed),
                  result_lines = proc_lines processed,
                  result_words = proc_words processed\<rparr>)"

text \<open>The loop of \<open>batch_process_images\<close>; \<open>results\<close> is the list built so far.\<close>

fun batch_loop :: "recogniser \<Rightarrow> string list \<Rightarrow> page_result list \<Rightarrow> page_result list" where
  "batch_loop recognise [] results = results"
| "batch_loop recognise (p # ps) results =
     (case process_image recognise p of
        Inr result \<Rightarrow> batch_loop recognise ps (results @ [Page_ok result])
      | Inl e \<Rightarrow> batch_loop recognise ps (results @ [Page_error p e [] 0]))"

definition batch_process_images :: "recogniser \<Rightarrow> string list \<Rightarrow> page_result list" where
  "batch_process_images recognise image_paths = batch_loop recognise image_paths []"

text \<open>The entry of one page, looked at on its own.\<close>

definition page_entry_of :: "recogniser \<Rightarrow> string \<Rightarrow> page_result" where
  "page_entry_of recognise p =
     (case process_image recognise p of
        Inr result \<Rightarrow> Page_ok result
      | Inl e \<Rightarrow> Page_error p e [] 0)"

text \<open>The mean the specification describes: over every token of confidence above zero,
  taken exactly.\<close>

definition mean_positive_confidence :: "ocr_row list \<Rightarrow> rat" where
  "mean_positive_confidence ocr_data =
     (let ts = filter (\<lambda>r. row_conf r > 0) ocr_data
      in of_int (sum_list (map row_conf ts)) / of_nat (length ts))"

text \<open>The tokens the code counts: confidence above zero and a text that is not blank.\<close>

definition counted_rows :: "ocr_row list \<Rightarrow> ocr_row list" where
  "counted_rows ocr_data = filter (\<lambda>r. row_conf r > 0 \<and> py_strip (row_text r) \<noteq> []) ocr_data"


text \<open>A text in which every whitespace character is a single blank between two other
  characters of a run; the flag says that the previous character was a blank.\<close>

fun singly_spaced :: "bool \<Rightarrow> string \<Rightarrow> bool" where
  "singly_spaced after_space [] = True"
| "singly_spaced after_space (c # cs) =
     (if is_space c then c = CHR '' '' \<and> \<not> after_space \<and> singly_spaced True cs
      else singly_spaced False cs)"


section \<open>Example inputs\<close>

text \<open>Two files: three pages of 150, 100 and 50 characters, and two pages of 40 and 159.\<close>

definition example_fs :: "string \<rightharpoonup> stored_file" where
  "example_fs =
     [''a.pdf'' \<mapsto> \<lparr>stored_size = 2048,
                        stored_pages = Some [replicate 150 (CHR ''x''), replicate 100 (CHR ''y''),
                                             replicate 50 (CHR ''z'')]\<rparr>,
      ''b.pdf'' \<mapsto> \<lparr>stored_size = 4096,
                        stored_pages = Some [replicate 40 (CHR ''x''), replicate 159 (CHR ''y'')]\<rparr>]"

definition example_rows :: "ocr_row list" where
  "example_rows =
     [\<lparr>row_level = 5, row_conf = 90, row_text = ''a'', row_left = 0, row_top = 0,
       row_width = 8, row_height = 10, row_line_num = 1\<rparr>,
      \<lparr>row_level = 5, row_conf = 50, row_text = '' '', row_left = 10, row_top = 0,
       row_width = 8, row_height = 10, row_line_num = 1\<rparr>]"

definition thirds_rows :: "ocr_row list" where
  "thirds_rows =
     [\<lparr>row_level = 5, row_conf = 90, row_text = ''Muro'', row_left = 0, row_top = 0,
       row_width = 30, row_height = 10, row_line_num = 1\<rparr>,
      \<lparr>row_level = 5, row_conf = 91, row_text = ''de'', row_left = 40, row_top = 0,
       row_width = 15, row_height = 10, row_line_num = 1\<rparr>,
      \<lparr>row_level = 5, row_conf = - 1, row_text = [], row_left = 0, row_top = 0,
       row_width = 100, row_height = 10, row_line_num = 1\<rparr>,
      \<lparr>row_level = 5, row_conf = 91, row_text = ''ladrillo'', row_left = 60, row_top = 0,
       row_width = 50, row_height = 10, row_line_num = 1\<rparr>]"

definition example_recogniser :: recogniser where
  "example_recogniser p =
     (if p = ''bad.png'' then Inl ''cannot identify image file''
      else Inr ((800, 600), [], ''Total 10.00''))"

definition example_candidates :: "item list" where
  "example_candidates =
     [\<lparr>code = ''02.01.01'', description = ''Muro  de ladrillo '', unit = ''Metros Cuadrados'',
       quantity = Some (Decimal False 25 0), unit_price = Some (Decimal False 1250 (- 2)),
       total_price = None\<rparr>,
      \<lparr>code = ''02.01.01'', description = ''Muro de ladrillo'', unit = ''m2'',
       quantity = Some (Decimal False 25 0), unit_price = None, total_price = None\<rparr>,
      \<lparr>code = ''03'', description = ''   '', unit = ''kg'',
       quantity = Some (Decimal False 4 0), unit_price = None, total_price = None\<rparr>,
      \<lparr>code = [], description = ''Limpieza final'', unit = [],
       quantity = None, unit_price = Some (Decimal False 300 0), total_price = None\<rparr>]"

definition example_cleaned :: "item list" where
  "example_cleaned =
     [\<lparr>code = ''02.01.01'', description = ''Muro de ladrillo'', unit = ''m2'',
       quantity = Some (Decimal False 25 0), unit_price = Some (Decimal False 1250 (- 2)),
       total_price = Some (Decimal False 31250 (- 2))\<rparr>,
      \<lparr>code = ''AUTO_007'', description = ''Limpieza final'', unit = [],
       quantity = None, unit_price = Some (Decimal False 300 0), total_price = None\<rparr>]"

definition codeless_candidates :: "item list" where
  "codeless_candidates =
     [\<lparr>code = [], description = ''Limpieza final'', unit = [],
       quantity = None, unit_price = Some (Decimal False 300 0), total_price = None\<rparr>,
      \<lparr>code = [], description = ''Retiro de escombros'', unit = ''m3'',
       quantity = Some (Decimal False 4 0), unit_price = None, total_price = None\<rparr>]"


section \<open>Regular expressions\<close>

text \<open>
  The patterns of the program are values of \<open>regex\<close>, and \<open>ms\<close> is a backtracking matcher
  in the manner of Python's \<open>re\<close>: from a state it lists every way the pattern can match
  there, in the order in which the engine would try them, so that the head of the list is
  the match \<open>re\<close> reports. A repetition is greedy or lazy; an alternative prefers its left
  branch. None of the patterns below matches the empty string.
\<close>

datatype class_item = Single char | Range char char | Digits | Spaces

datatype regex =
    Lit char
  | Dot
  | Class "class_item list"
  | Bol
  | Eol
  | WordB
  | Eps
  | Cat regex regex
  | Alt regex regex
  | Group nat regex
  | Rep bool nat "nat option" regex

record flags =
  ignorecase :: bool
  multiline :: bool

record mstate =
  prev :: "char option"
  rest :: string
  pos :: nat
  groups :: "(nat \<times> string) list"

definition py_upper_char :: "char \<Rightarrow> char" where
  "py_upper_char c = (let n = cp c in
     if (97 \<le> n \<and> n \<le> 122) \<or> (224 \<le> n \<and> n \<le> 254 \<and> n \<noteq> 247) then char_of (n - 32) else c)"

definition is_word :: "char \<Rightarrow> bool" where
  "is_word c = (let n = cp c in
     (48 \<le> n \<and> n \<le> 57) \<or> (65 \<le> n \<and> n \<le> 90) \<or> n = 95 \<or> (97 \<le> n \<and> n \<le> 122)
     \<or> n = 170 \<or> n = 178 \<or> n = 179 \<or> n = 181 \<or> n = 185 \<or> n = 186
     \<or> (188 \<le> n \<and> n \<le> 190) \<or> (192 \<le> n \<and> n \<le> 214) \<or> (216 \<le> n \<and> n \<le> 246)
     \<or> (248 \<le> n \<and> n \<le> 255))"

fun item_matches :: "class_item \<Rightarrow> char \<Rightarrow> bool" where
  "item_matches (Single a) c = (c = a)"
| "item_matches (Range a b) c = (cp a \<le> cp c \<and> cp c \<le> cp b)"
| "item_matches Digits c = is_decimal_digit c"
| "item_matches Spaces c = is_space c"

definition class_matches :: "bool \<Rightarrow> class_item list \<Rightarrow> char \<Rightarrow> bool" where
  "class_matches icase items c =
     (list_ex (\<lambda>i. item_matches i c) items
      \<or> (icase \<and> list_ex (\<lambda>i. item_matches i (py_lower_char c) \<or> item_matches i (py_upper_char c)) items))"

definition lit_matches :: "bool \<Rightarrow> char \<Rightarrow> char \<Rightarrow> bool" where
  "lit_matches icase a c = (if icase then py_lower_char c = py_lower_char a else c = a)"

text \<open>One character is consumed when it satisfies the test.\<close>

definition step_char :: "(char \<Rightarrow> bool) \<Rightarrow> mstate \<Rightarrow> mstate list" where
  "step_char ok st =
     (case rest st of
        [] \<Rightarrow> []
      | c # cs \<Rightarrow> if ok c then [st\<lparr>prev := Some c, rest := cs, pos := Suc (pos st)\<rparr>] else [])"

definition at_word_boundary :: "mstate \<Rightarrow> bool" where
  "at_word_boundary st =
     ((case prev st of None \<Rightarrow> False | Some c \<Rightarrow> is_word c)
      \<noteq> (case rest st of [] \<Rightarrow> False | c # _ \<Rightarrow> is_word c))"

definition at_line_start :: "flags \<Rightarrow> mstate \<Rightarrow> bool" where
  "at_line_start fl st =
     (case prev st of None \<Rightarrow> True | Some c \<Rightarrow> multiline fl \<and> c = CHR 0x0A)"

definition at_line_end :: "flags \<Rightarrow> mstate \<Rightarrow> bool" where
  "at_line_end fl st =
     (case rest st of
        [] \<Rightarrow> True
      | c # cs \<Rightarrow> c = CHR 0x0A \<and> (cs = [] \<or> multiline fl))"

text \<open>
  A repetition of \<open>f\<close>: \<open>lo\<close> iterations that must happen, then up to \<open>extra\<close> further ones.
  A further iteration has to consume something. Greedy repetition prefers to iterate, lazy
  repetition prefers to stop.
\<close>

fun rep_list :: "(mstate \<Rightarrow> mstate list) \<Rightarrow> bool \<Rightarrow> nat \<Rightarrow> nat \<Rightarrow> mstate \<Rightarrow> mstate list" where
  "rep_list f greedy (Suc lo) extra st = concat (map (rep_list f greedy lo extra) (f st))"
| "rep_list f greedy 0 0 st = [st]"
| "rep_list f greedy 0 (Suc extra) st =
     (let further = concat (map (rep_list f greedy 0 extra)
                                (filter (\<lambda>st'. pos st < pos st') (f st)))
      in if greedy then further @ [st] else st # further)"

primrec ms :: "regex \<Rightarrow> flags \<Rightarrow> mstate \<Rightarrow> mstate list" where
  "ms (Lit a) fl st = step_char (lit_matches (ignorecase fl) a) st"
| "ms Dot fl st = step_char (\<lambda>c. c \<noteq> CHR 0x0A) st"
| "ms (Class items) fl st = step_char (class_matches (ignorecase fl) items) st"
| "ms Bol fl st = (if at_line_start fl st then [st] else [])"
| "ms Eol fl st = (if at_line_end fl st then [st] else [])"
| "ms WordB fl st = (if at_word_boundary st then [st] else [])"
| "ms Eps fl st = [st]"
| "ms (Cat a b) fl st = concat (map (ms b fl) (ms a fl st))"
| "ms (Alt a b) fl st = ms a fl st @ ms b fl st"
| "ms (Group n r) fl st =
     map (\<lambda>st'. st'\<lparr>groups := (n, take (pos st' - pos st) (rest st)) # groups st'\<rparr>) (ms r fl st)"
| "ms (Rep greedy lo hi r) fl st =
     rep_list (ms r fl) greedy lo
       (case hi of None \<Rightarrow> length (rest st) | Some h \<Rightarrow> h - lo) st"

text \<open>A match object: the matched text and the groups.\<close>

record rmatch =
  m_text :: string
  m_groups :: "(nat \<times> string) list"

definition match_here :: "regex \<Rightarrow> flags \<Rightarrow> char option \<Rightarrow> string \<Rightarrow> rmatch option" where
  "match_here r fl p s =
     (case ms r fl \<lparr>prev = p, rest = s, pos = 0, groups = []\<rparr> of
        [] \<Rightarrow> None
      | st # _ \<Rightarrow> Some \<lparr>m_text = take (pos st) s, m_groups = groups st\<rparr>)"

text \<open>\<open>re.match\<close>: at the start of the text only.\<close>

definition re_match :: "regex \<Rightarrow> flags \<Rightarrow> string \<Rightarrow> rmatch option" where
  "re_match r fl s = match_here r fl None s"

text \<open>\<open>re.search\<close>: at the first position where the pattern matches.\<close>

fun search_from :: "regex \<Rightarrow> flags \<Rightarrow> char option \<Rightarrow> string \<Rightarrow> rmatch option" where
  "search_from r fl p [] = match_here r fl p []"
| "search_from r fl p (c # cs) =
     (case match_here r fl p (c # cs) of
        Some m \<Rightarrow> Some m
      | None \<Rightarrow> search_from r fl (Some c) cs)"

definition re_search :: "regex \<Rightarrow> flags \<Rightarrow> string \<Rightarrow> rmatch option" where
  "re_search r fl s = search_from r fl None s"

text \<open>
  One pass over the text for \<open>findall\<close>, \<open>finditer\<close>, \<open>sub\<close> and \<open>split\<close>: the
  matches that do not overlap, from left to right, and between them the characters no
  match covers. \<open>skip\<close> counts the characters still inside the last match.
\<close>

fun scan :: "regex \<Rightarrow> flags \<Rightarrow> nat \<Rightarrow> char option \<Rightarrow> string \<Rightarrow> (char + rmatch) list" where
  "scan r fl skip p [] =
     (case skip of
        Suc _ \<Rightarrow> []
      | 0 \<Rightarrow> (case match_here r fl p [] of None \<Rightarrow> [] | Some m \<Rightarrow> [Inr m]))"
| "scan r fl skip p (c # cs) =
     (case skip of
        Suc k \<Rightarrow> scan r fl k (Some c) cs
      | 0 \<Rightarrow>
          (case match_here r fl p (c # cs) of
             None \<Rightarrow> Inl c # scan r fl 0 (Some c) cs
           | Some m \<Rightarrow>
               (case m_text m of
                  [] \<Rightarrow> Inr m # Inl c # scan r fl 0 (Some c) cs
                | _ # t \<Rightarrow> Inr m # scan r fl (length t) (Some c) cs)))"

definition finditer :: "regex \<Rightarrow> flags \<Rightarrow> string \<Rightarrow> rmatch list" where
  "finditer r fl s = [m. Inr m \<leftarrow> scan r fl 0 None s]"

text \<open>\<open>re.findall\<close> for a pattern without capturing group: the matched texts.\<close>

definition findall :: "regex \<Rightarrow> flags \<Rightarrow> string \<Rightarrow> string list" where
  "findall r fl s = map m_text (finditer r fl s)"

text \<open>\<open>re.sub\<close> with a constant replacement.\<close>

definition re_sub :: "regex \<Rightarrow> flags \<Rightarrow> string \<Rightarrow> string \<Rightarrow> string" where
  "re_sub r fl repl s =
     concat (map (\<lambda>t. case t of Inl c \<Rightarrow> [c] | Inr m \<Rightarrow> repl) (scan r fl 0 None s))"

text \<open>\<open>re.split\<close> for a pattern without capturing group: the pieces between the matches.\<close>

fun pieces :: "string \<Rightarrow> (char + rmatch) list \<Rightarrow> string list" where
  "pieces cur [] = [cur]"
| "pieces cur (Inl c # ts) = pieces (cur @ [c]) ts"
| "pieces cur (Inr m # ts) = cur # pieces [] ts"

definition re_split :: "regex \<Rightarrow> flags \<Rightarrow> string \<Rightarrow> string list" where
  "re_split r fl s = pieces [] (scan r fl 0 None s)"

text \<open>\<open>m.group(n)\<close> of a group that took part in the match, and \<open>len(m.groups())\<close>.\<close>

definition group_text :: "rmatch \<Rightarrow> nat \<Rightarrow> string" where
  "group_text m n = (case map_of (m_groups m) n of None \<Rightarrow> [] | Some s \<Rightarrow> s)"

primrec count_groups :: "regex \<Rightarrow> nat" where
  "count_groups (Lit a) = 0"
| "count_groups Dot = 0"
| "count_groups (Class items) = 0"
| "count_groups Bol = 0"
| "count_groups Eol = 0"
| "count_groups WordB = 0"
| "count_groups Eps = 0"
| "count_groups (Cat a b) = count_groups a + count_groups b"
| "count_groups (Alt a b) = count_groups a + count_groups b"
| "count_groups (Group n r) = Suc (count_groups r)"
| "count_groups (Rep greedy lo hi r) = count_groups r"

definition no_flags :: flags where
  "no_flags = \<lparr>ignorecase = False, multiline = False\<rparr>"

definition icase :: flags where
  "icase = \<lparr>ignorecase = True, multiline = False\<rparr>"

definition icase_multiline :: flags where
  "icase_multiline = \<lparr>ignorecase = True, multiline = True\<rparr>"

text \<open>The shorthands \<open>\d\<close>, \<open>\s\<close>, \<open>x+\<close>, \<open>x*\<close>, \<open>x?\<close>, \<open>x+?\<close>, \<open>x{m,n}\<close>, a literal
  word, a sequence and an alternative of several patterns.\<close>

definition digit :: regex where "digit = Class [Digits]"
definition space :: regex where "space = Class [Spaces]"
definition one_or_more :: "regex \<Rightarrow> regex" where "one_or_more r = Rep True 1 None r"
definition zero_or_more :: "regex \<Rightarrow> regex" where "zero_or_more r = Rep True 0 None r"
definition optional :: "regex \<Rightarrow> regex" where "optional r = Rep True 0 (Some 1) r"
definition one_or_more_lazy :: "regex \<Rightarrow> regex" where "one_or_more_lazy r = Rep False 1 None r"
definition between :: "nat \<Rightarrow> nat \<Rightarrow> regex \<Rightarrow> regex" where "between lo hi r = Rep True lo (Some hi) r"

fun lits :: "string \<Rightarrow> regex" where
  "lits [] = Eps"
| "lits [c] = Lit c"
| "lits (c # cs) = Cat (Lit c) (lits cs)"

fun cats :: "regex list \<Rightarrow> regex" where
  "cats [] = Eps"
| "cats [r] = r"
| "cats (r # rs) = Cat r (cats rs)"

fun alts :: "regex list \<Rightarrow> regex" where
  "alts [] = Class []"
| "alts [r] = r"
| "alts (r # rs) = Alt r (alts rs)"


section \<open>Extraction of budget items (\<open>data_extractor.py\<close>)\<close>

subsection \<open>Strings and amounts\<close>

text \<open>\<open>s.split(d)\<close> for a separator of one character, and \<open>s.split()\<close>.\<close>

fun split_on :: "char \<Rightarrow> string \<Rightarrow> string \<Rightarrow> string list" where
  "split_on d cur [] = [cur]"
| "split_on d cur (c # cs) = (if c = d then cur # split_on d [] cs else split_on d (cur @ [c]) cs)"

definition split_lines :: "string \<Rightarrow> string list" where
  "split_lines s = split_on (CHR 0x0A) [] s"

fun py_split_from :: "string \<Rightarrow> string \<Rightarrow> string list" where
  "py_split_from cur [] = (if cur = [] then [] else [cur])"
| "py_split_from cur (c # cs) =
     (if is_space c then (if cur = [] then [] else [cur]) @ py_split_from [] cs
      else py_split_from (cur @ [c]) cs)"

definition py_split :: "string \<Rightarrow> string list" where
  "py_split s = py_split_from [] s"

text \<open>\<open>xs[a:b]\<close> for indices that are not negative.\<close>

definition py_slice :: "nat \<Rightarrow> nat \<Rightarrow> 'a list \<Rightarrow> 'a list" where
  "py_slice a b xs = take (b - a) (drop a xs)"

text \<open>
  \<open>Decimal(s)\<close>. Every string the program passes to it is made of digits and dots (it is a
  group of a pattern, with \<open>$\<close> and \<open>,\<close> removed); on these the constructor accepts digits
  with at most one dot and at least one digit, and raises \<open>InvalidOperation\<close>, here
  \<open>None\<close>, on the others.
\<close>

definition nat_of_digits :: "string \<Rightarrow> nat" where
  "nat_of_digits s = foldl (\<lambda>n c. 10 * n + (cp c - 48)) 0 s"

definition py_decimal :: "string \<Rightarrow> decimal option" where
  "py_decimal s =
     (case dropWhile is_decimal_digit s of
        [] \<Rightarrow> if s = [] then None else Some (Decimal False (nat_of_digits s) 0)
      | c # decimals \<Rightarrow>
          if c = CHR ''.'' \<and> list_all is_decimal_digit decimals
             \<and> (takeWhile is_decimal_digit s \<noteq> [] \<or> decimals \<noteq> [])
          then Some (Decimal False (nat_of_digits (takeWhile is_decimal_digit s @ decimals))
                       (- int (length decimals)))
          else None)"

text \<open>\<open>price.replace('$', '').replace(',', '')\<close>\<close>

definition clean_price :: "string \<Rightarrow> string" where
  "clean_price s = filter (\<lambda>c. c \<noteq> CHR ''$'' \<and> c \<noteq> CHR '','') s"

definition matches :: "rmatch option \<Rightarrow> bool" where
  "matches m = (case m of None \<Rightarrow> False | Some _ \<Rightarrow> True)"

subsection \<open>The patterns\<close>

definition common_units :: "string list" where
  "common_units =
     [''m2'', ''m3'', ''kg'', ''ml'', ''l'', ''un'', ''hm'', ''km'', ''m'', ''pieza'', ''juego'',
      ''global'', ''metros'', ''kilogramos'', ''litros'', ''unidades'', ''metros cuadrados'',
      ''metros c'' @ [CHR 0xFA] @ ''bicos'']"

text \<open>\<open>\d+(?:\.\d+)?\<close>, \<open>\d+(?:\.\d+)*\<close>, \<open>\d+(?:\.\d{2})?\<close> and \<open>m2|m3|kg|ml|l|un|m\<close>\<close>

definition number :: regex where
  "number = Cat (one_or_more digit) (optional (Cat (Lit (CHR ''.'')) (one_or_more digit)))"

definition dotted_number :: regex where
  "dotted_number = Cat (one_or_more digit) (zero_or_more (Cat (Lit (CHR ''.'')) (one_or_more digit)))"

definition amount :: regex where
  "amount = Cat (one_or_more digit) (optional (Cat (Lit (CHR ''.'')) (between 2 2 digit)))"

definition unit_names :: regex where
  "unit_names = alts [lits ''m2'', lits ''m3'', lits ''kg'', lits ''ml'', lits ''l'', lits ''un'', lits ''m'']"

text \<open>\<open>[A-Z]{2,3}\d{2,4}\<close> and \<open>[$\d,\.]+\<close>\<close>

definition work_code :: regex where
  "work_code = Cat (between 2 3 (Class [Range (CHR ''A'') (CHR ''Z'')])) (between 2 4 digit)"

definition price_chars :: regex where
  "price_chars = one_or_more (Class [Single (CHR ''$''), Digits, Single (CHR '',''), Single (CHR ''.'')])"

text \<open>\<open>self.currency_patterns\<close>:
  \<open>\$?\d{1,3}(?:,\d{3})*\.?\d{0,2}\<close>, \<open>\d{1,3}(?:\.\d{3})*,\d{2}\<close> and \<open>\b\d+\.\d{2}\b\<close>\<close>

definition currency_patterns :: "regex list" where
  "currency_patterns =
     [cats [optional (Lit (CHR ''$'')), between 1 3 digit,
            zero_or_more (Cat (Lit (CHR '','')) (between 3 3 digit)),
            optional (Lit (CHR ''.'')), between 0 2 digit],
      cats [between 1 3 digit, zero_or_more (Cat (Lit (CHR ''.'')) (between 3 3 digit)),
            Lit (CHR '',''), between 2 2 digit],
      cats [WordB, one_or_more digit, Lit (CHR ''.''), between 2 2 digit, WordB]]"

subsection \<open>Cleaning the text\<close>

text \<open>
  \<open>_clean_text\<close>: control characters become spaces (\<open>[\x00-\x1f\x7f-\x9f]\<close>, the line feed
  and the tabulator among them), runs of whitespace become one space, runs of line feeds
  become one line feed, and the ends are stripped.
\<close>

definition control_chars :: regex where
  "control_chars = Class [Range (CHR 0x00) (CHR 0x1F), Range (CHR 0x7F) (CHR 0x9F)]"

definition clean_text :: "string \<Rightarrow> string" where
  "clean_text t =
     py_strip (re_sub (one_or_more (Lit (CHR 0x0A))) no_flags [CHR 0x0A]
       (re_sub (one_or_more space) no_flags '' ''
         (re_sub control_chars no_flags '' '' t)))"

subsection \<open>Detecting the format\<close>

definition is_table_row :: "string \<Rightarrow> bool" where
  "is_table_row line =
     (3 \<le> length (findall number no_flags line) \<and> 4 \<le> length (py_split line))"

text \<open>\<open>^\s*\d+(?:\.\d+)*\<close> and \<open>\d+(?:\.\d+)?\s*(?:m2|m3|kg|ml|l|un|m)\b\<close>\<close>

definition is_list_item :: "string \<Rightarrow> bool" where
  "is_list_item line =
     (matches (re_match (cats [Bol, zero_or_more space, dotted_number]) no_flags line)
      \<and> (matches (re_search (cats [number, zero_or_more space, unit_names, WordB]) icase line)
           \<or> list_ex (\<lambda>p. matches (re_search p no_flags line)) currency_patterns))"

fun count_rows :: "string list \<Rightarrow> nat \<times> nat \<Rightarrow> nat \<times> nat" where
  "count_rows [] counts = counts"
| "count_rows (line # ls) (table_lines, list_lines) =
     count_rows ls
       (if is_table_row line then (Suc table_lines, list_lines)
        else if is_list_item line then (table_lines, Suc list_lines)
        else (table_lines, list_lines))"

text \<open>The products \<open>len(lines) * 0.6\<close> and \<open>len(lines) * 0.4\<close> are taken exactly.\<close>

definition detect_format :: "string list \<Rightarrow> string" where
  "detect_format ls =
     (if length ls < 3 then ''unknown''
      else (case count_rows ls (0, 0) of
              (table_lines, list_lines) \<Rightarrow>
                if (of_nat (length ls) :: rat) * (6 / 10) < of_nat table_lines then ''table''
                else if (of_nat (length ls) :: rat) * (4 / 10) < of_nat list_lines then ''list''
                else ''mixed''))"

subsection \<open>Tables\<close>

text \<open>\<open>_split_table_row\<close>: the line is cut at \<open>\s{2,}|\t\<close>, empty columns are dropped.\<close>

definition column_separator :: regex where
  "column_separator = Alt (Rep True 2 None space) (Lit (CHR 0x09))"

definition split_table_row :: "string \<Rightarrow> string list" where
  "split_table_row line =
     map py_strip (filter (\<lambda>col. py_strip col \<noteq> [])
                          (re_split column_separator no_flags (py_strip line)))"

text \<open>The first of the first two columns that is a code (\<open>^\d+(?:\.\d+)*$\<close>), with the
  column after it as description.\<close>

fun table_code :: "string list \<Rightarrow> nat \<Rightarrow> string list \<Rightarrow> string \<times> string" where
  "table_code columns i [] = ([], [])"
| "table_code columns i (col # cols) =
     (if matches (re_match (cats [Bol, dotted_number, Eol]) no_flags col)
      then (col, if i + 1 < length columns then columns ! (i + 1) else [])
      else table_code columns (Suc i) cols)"

text \<open>The loop over the columns for quantity and unit:
  \<open>(\d+(?:\.\d+)?)\s*(m2|m3|kg|ml|l|un|m)\b\<close> and \<open>\b(m2|m3|kg|ml|l|un|m)\b\<close>.\<close>

fun table_quantity ::
  "string list \<Rightarrow> decimal option \<times> string \<Rightarrow> error + (decimal option \<times> string)" where
  "table_quantity [] found = Inr found"
| "table_quantity (col # cols) (qty, u) =
     (case (case re_search (cats [Group 1 number, zero_or_more space, Group 2 unit_names, WordB])
                   icase col of
              None \<Rightarrow> Inr (qty, u)
            | Some m \<Rightarrow>
                if opt_truthy qty then Inr (qty, u)
                else (case py_decimal (group_text m 1) of
                        None \<Rightarrow> Inl InvalidOperation
                      | Some d \<Rightarrow> Inr (Some d, group_text m 2))) of
        Inl e \<Rightarrow> Inl e
      | Inr (qty', u') \<Rightarrow>
          table_quantity cols
            (qty',
             case re_search (cats [WordB, Group 1 unit_names, WordB]) icase col of
               None \<Rightarrow> u'
             | Some m \<Rightarrow> if u' = [] then group_text m 1 else u'))"

text \<open>Every amount every currency pattern finds in every column; a text \<open>Decimal\<close> refuses
  is skipped.\<close>

definition table_prices :: "string list \<Rightarrow> decimal list" where
  "table_prices columns =
     concat (map (\<lambda>col.
       concat (map (\<lambda>p.
         concat (map (\<lambda>price. case py_decimal (clean_price price) of None \<Rightarrow> [] | Some d \<Rightarrow> [d])
                     (findall p no_flags col)))
         currency_patterns))
       columns)"

definition parse_table_columns_body :: "string list \<Rightarrow> error + item option" where
  "parse_table_columns_body columns =
     (case table_code columns 0 (take 2 columns) of
        (found_code, after_code) \<Rightarrow>
          (case (if found_code = []
                 then (case columns of [] \<Rightarrow> Inl IndexError | col # _ \<Rightarrow> Inr col)
                 else Inr after_code) of
             Inl e \<Rightarrow> Inl e
           | Inr desc \<Rightarrow>
               (case table_quantity columns (None, []) of
                  Inl e \<Rightarrow> Inl e
                | Inr (qty, u) \<Rightarrow>
                    (case (case table_prices columns of
                             [] \<Rightarrow> Inr (None, None)
                           | [price] \<Rightarrow>
                               (case qty of
                                  None \<Rightarrow> Inr (Some price, None)
                                | Some q \<Rightarrow>
                                    if dec_truthy q
                                    then (case dec_mul q price of
                                            Inl e \<Rightarrow> Inl e
                                          | Inr t \<Rightarrow> Inr (Some price, Some t))
                                    else Inr (Some price, None))
                           | prices \<Rightarrow>
                               Inr (Some (hd (sort_key dec_value prices)),
                                    Some (last (sort_key dec_value prices)))) of
                       Inl e \<Rightarrow> Inl e
                     | Inr (uprice, tprice) \<Rightarrow>
                         Inr (if desc \<noteq> [] \<and> (opt_truthy qty \<or> opt_truthy uprice)
                              then Some \<lparr>code = found_code, description = desc, unit = u,
                                         quantity = qty, unit_price = uprice, total_price = tprice\<rparr>
                              else None)))))"

text \<open>\<open>_parse_table_columns\<close>: any exception of the body is caught and gives \<open>None\<close>.\<close>

definition parse_table_columns :: "string list \<Rightarrow> item option" where
  "parse_table_columns columns =
     (case parse_table_columns_body columns of Inl e \<Rightarrow> None | Inr r \<Rightarrow> r)"

fun extract_from_table :: "string list \<Rightarrow> item list" where
  "extract_from_table [] = []"
| "extract_from_table (line # ls) =
     (if 4 \<le> length (split_table_row line)
      then (case parse_table_columns (split_table_row line) of None \<Rightarrow> [] | Some it \<Rightarrow> [it])
      else [])
     @ extract_from_table ls"

subsection \<open>Lists\<close>

text \<open>The three patterns of \<open>_parse_list_item\<close>:
  \<open>^(\d+(?:\.\d+)*)\s+(.+?)\s+(\d+(?:\.\d+)?)\s*(m2|m3|kg|ml|l|un|m)\s+([$\d,\.]+)\<close>,
  \<open>^(\d+)\s+(.+?)\s+(\d+(?:\.\d+)?)\s+([$\d,\.]+)\<close> and
  \<open>^([A-Z]{2,3}\d{2,4})\s+(.+?)\s+(\d+(?:\.\d+)?)\s*(m2|m3|kg|ml|l|un|m)\<close>.\<close>

definition list_patterns :: "regex list" where
  "list_patterns =
     [cats [Bol, Group 1 dotted_number, one_or_more space, Group 2 (one_or_more_lazy Dot),
            one_or_more space, Group 3 number, zero_or_more space, Group 4 unit_names,
            one_or_more space, Group 5 price_chars],
      cats [Bol, Group 1 (one_or_more digit), one_or_more space, Group 2 (one_or_more_lazy Dot),
            one_or_more space, Group 3 number, one_or_more space, Group 4 price_chars],
      cats [Bol, Group 1 work_code, one_or_more space, Group 2 (one_or_more_lazy Dot),
            one_or_more space, Group 3 number, zero_or_more space, Group 4 unit_names]]"

text \<open>The item of a match; \<open>n\<close> is \<open>len(groups)\<close>.\<close>

definition list_item_of :: "rmatch \<Rightarrow> nat \<Rightarrow> error + item" where
  "list_item_of m n =
     (case (if 2 < n
            then (case py_decimal (group_text m 3) of
                    None \<Rightarrow> Inl InvalidOperation
                  | Some d \<Rightarrow> Inr (Some d))
            else Inr None) of
        Inl e \<Rightarrow> Inl e
      | Inr qty \<Rightarrow>
          Inr \<lparr>code = group_text m 1,
               description = py_strip (group_text m 2),
               unit = (if 3 < n \<and> group_text m 4 \<in> set common_units then group_text m 4 else []),
               quantity = qty,
               unit_price = (if 4 < n then py_decimal (clean_price (group_text m 5)) else None),
               total_price = None\<rparr>)"

fun first_list_match :: "regex list \<Rightarrow> string \<Rightarrow> error + item option" where
  "first_list_match [] line = Inr None"
| "first_list_match (p # ps) line =
     (case re_search p icase line of
        None \<Rightarrow> first_list_match ps line
      | Some m \<Rightarrow> (case list_item_of m (count_groups p) of Inl e \<Rightarrow> Inl e | Inr it \<Rightarrow> Inr (Some it)))"

definition parse_list_item :: "string \<Rightarrow> error + item option" where
  "parse_list_item line =
     (if py_strip line = [] then Inr None else first_list_match list_patterns (py_strip line))"

text \<open>\<open>_extract_from_list\<close>: a line that is no item and is longer than ten characters and
  does not start with a digit continues the description of the current item.\<close>

fun list_loop :: "string list \<Rightarrow> item list \<Rightarrow> item option \<Rightarrow> error + item list" where
  "list_loop [] items current_item =
     Inr (case current_item of None \<Rightarrow> items | Some c \<Rightarrow> items @ [c])"
| "list_loop (line # ls) items current_item =
     (case parse_list_item line of
        Inl e \<Rightarrow> Inl e
      | Inr (Some new_item) \<Rightarrow>
          list_loop ls (case current_item of None \<Rightarrow> items | Some c \<Rightarrow> items @ [c]) (Some new_item)
      | Inr None \<Rightarrow>
          (case current_item of
             None \<Rightarrow> list_loop ls items None
           | Some c \<Rightarrow>
               if 10 < length (py_strip line) \<and> \<not> py_isdigit (hd (py_strip line))
               then list_loop ls items
                      (Some (c\<lparr>description := description c @ '' '' @ py_strip line\<rparr>))
               else list_loop ls items (Some c)))"

definition extract_from_list :: "string list \<Rightarrow> error + item list" where
  "extract_from_list ls = list_loop ls [] None"

subsection \<open>Patterns on free text\<close>

text \<open>\<open>_extract_item_with_patterns\<close>: code \<open>\b(\d+(?:\.\d+)*)\b\<close>, quantity
  \<open>\b(\d+(?:\.\d+)?)\s*(m2|m3|kg|ml|l|un|m)\b\<close>, the first amount of the first currency
  pattern that finds one \<open>Decimal\<close> accepts, description \<open>[a-zA-Z].*\<close>.\<close>

fun first_price :: "regex list \<Rightarrow> string \<Rightarrow> decimal option" where
  "first_price [] s = None"
| "first_price (p # ps) s =
     (case findall p no_flags s of
        [] \<Rightarrow> first_price ps s
      | price # _ \<Rightarrow>
          (case py_decimal (clean_price price) of Some d \<Rightarrow> Some d | None \<Rightarrow> first_price ps s))"

definition extract_item_with_patterns :: "string \<Rightarrow> error + item option" where
  "extract_item_with_patterns s =
     (case (case re_search (cats [WordB, Group 1 number, zero_or_more space, Group 2 unit_names, WordB])
                   icase s of
              None \<Rightarrow> Inr (None, [])
            | Some m \<Rightarrow>
                (case py_decimal (group_text m 1) of
                   None \<Rightarrow> Inl InvalidOperation
                 | Some d \<Rightarrow> Inr (Some d, group_text m 2))) of
        Inl e \<Rightarrow> Inl e
      | Inr (qty, u) \<Rightarrow>
          Inr ((\<lambda>it. if is_valid_item it then Some it else None)
            \<lparr>code = (case re_search (cats [WordB, Group 1 dotted_number, WordB]) no_flags s of
                       None \<Rightarrow> [] | Some m \<Rightarrow> group_text m 1),
             description =
               (case re_search (Cat (Class [Range (CHR ''a'') (CHR ''z''), Range (CHR ''A'') (CHR ''Z'')])
                                    (zero_or_more Dot)) no_flags s of
                  None \<Rightarrow> [] | Some m \<Rightarrow> py_strip (m_text m)),
             unit = u,
             quantity = qty,
             unit_price = first_price currency_patterns s,
             total_price = None\<rparr>))"

text \<open>\<open>_extract_with_patterns\<close>: the lines are joined again and the three patterns are run
  over the whole text, ignoring case, \<open>^\<close> and \<open>$\<close> at every line. The named groups are
  numbered: code 1, desc 2, qty 3, unit 4, uprice 5, total 6, price 7.

  \<open>(?P<code>\d+(?:\.\d+)*)\s+(?P<desc>.+?)\s+(?P<qty>\d+(?:\.\d+)?)\s*(?P<unit>m2|m3|kg|ml|l|un|m)\s+(?P<uprice>\d+(?:\.\d{2})?)\s+(?P<total>\d+(?:\.\d{2})?)\<close>,
  \<open>(?P<code>[A-Z]{2,3}\d{2,4})\s+(?P<desc>.+?)\s+(?P<qty>\d+(?:\.\d+)?)\s+(?P<unit>m2|m3|kg|ml|l|un|m)\<close>,
  \<open>(?P<desc>.+?)\s+(?P<qty>\d+(?:\.\d+)?)\s*(?P<unit>m2|m3|kg|ml|l|un|m)\s+(?P<price>\d+(?:\.\d{2})?)\<close>\<close>

definition budget_patterns :: "regex list" where
  "budget_patterns =
     [cats [Group 1 dotted_number, one_or_more space, Group 2 (one_or_more_lazy Dot),
            one_or_more space, Group 3 number, zero_or_more space, Group 4 unit_names,
            one_or_more space, Group 5 amount, one_or_more space, Group 6 amount],
      cats [Group 1 work_code, one_or_more space, Group 2 (one_or_more_lazy Dot),
            one_or_more space, Group 3 number, one_or_more space, Group 4 unit_names],
      cats [Group 2 (one_or_more_lazy Dot), one_or_more space, Group 3 number,
            zero_or_more space, Group 4 unit_names, one_or_more space, Group 7 amount]]"

text \<open>\<open>'k' in groups and groups['k']\<close>\<close>

definition named :: "rmatch \<Rightarrow> nat \<Rightarrow> string option" where
  "named m k = (case map_of (m_groups m) k of None \<Rightarrow> None | Some s \<Rightarrow> if s = [] then None else Some s)"

text \<open>An amount that is set inside \<open>try\<close>: a text \<open>Decimal\<close> refuses leaves it unset.\<close>

definition decimal_of :: "string option \<Rightarrow> decimal option" where
  "decimal_of v = (case v of None \<Rightarrow> None | Some s \<Rightarrow> py_decimal s)"

definition pattern_item :: "rmatch \<Rightarrow> error + item" where
  "pattern_item m =
     (case (case named m 3 of
              None \<Rightarrow> Inr None
            | Some s \<Rightarrow> (case py_decimal s of None \<Rightarrow> Inl InvalidOperation | Some d \<Rightarrow> Inr (Some d))) of
        Inl e \<Rightarrow> Inl e
      | Inr qty \<Rightarrow>
          Inr \<lparr>code = group_text m 1,
               description = py_strip (group_text m 2),
               unit = group_text m 4,
               quantity = qty,
               unit_price =
                 (case named m 6 of
                    Some t \<Rightarrow> decimal_of (named m 5)
                  | None \<Rightarrow>
                      (case decimal_of (named m 7) of
                         Some d \<Rightarrow> Some d
                       | None \<Rightarrow> decimal_of (named m 5))),
               total_price = decimal_of (named m 6)\<rparr>)"

fun pattern_items :: "rmatch list \<Rightarrow> error + item list" where
  "pattern_items [] = Inr []"
| "pattern_items (m # ms') =
     (case pattern_item m of
        Inl e \<Rightarrow> Inl e
      | Inr it \<Rightarrow>
          (case pattern_items ms' of
             Inl e \<Rightarrow> Inl e
           | Inr its \<Rightarrow> Inr (if is_valid_item it then it # its else its)))"

definition extract_with_patterns :: "string list \<Rightarrow> error + item list" where
  "extract_with_patterns ls =
     pattern_items (concat (map (\<lambda>p. finditer p icase_multiline (join_with [CHR 0x0A] ls))
                                budget_patterns))"

subsection \<open>Mixed documents\<close>

text \<open>\<open>^\s*\d+(?:\.\d+)*\<close> or \<open>^\s*[A-Z]{2,3}\d{2,4}\<close>\<close>

definition is_new_item_line :: "string \<Rightarrow> bool" where
  "is_new_item_line line =
     (matches (re_match (cats [Bol, zero_or_more space, dotted_number]) no_flags line)
      \<or> matches (re_match (cats [Bol, zero_or_more space, work_code]) no_flags line))"

definition parse_buffered_lines :: "string list \<Rightarrow> error + item option" where
  "parse_buffered_lines buffer =
     (if buffer = [] then Inr None
      else (case parse_list_item (join_with '' '' buffer) of
              Inl e \<Rightarrow> Inl e
            | Inr (Some it) \<Rightarrow> Inr (Some it)
            | Inr None \<Rightarrow> extract_item_with_patterns (join_with '' '' buffer)))"

definition flush_buffer :: "string list \<Rightarrow> item list \<Rightarrow> error + item list" where
  "flush_buffer buffer items =
     (if buffer = [] then Inr items
      else (case parse_buffered_lines buffer of
              Inl e \<Rightarrow> Inl e
            | Inr None \<Rightarrow> Inr items
            | Inr (Some it) \<Rightarrow> Inr (items @ [it])))"

fun line_breaks_loop :: "string list \<Rightarrow> item list \<Rightarrow> string list \<Rightarrow> error + item list" where
  "line_breaks_loop [] items buffer = flush_buffer buffer items"
| "line_breaks_loop (l # ls) items buffer =
     (if py_strip l = [] then line_breaks_loop ls items buffer
      else if is_new_item_line (py_strip l)
      then (case flush_buffer buffer items of
              Inl e \<Rightarrow> Inl e
            | Inr items' \<Rightarrow> line_breaks_loop ls items' [py_strip l])
      else line_breaks_loop ls items (buffer @ [py_strip l]))"

definition extract_with_line_breaks :: "string list \<Rightarrow> error + item list" where
  "extract_with_line_breaks ls = line_breaks_loop ls [] []"

text \<open>\<open>_extract_with_context\<close>: every line that is not blank is read together with the line
  before and the line after it.\<close>

fun context_loop :: "string list \<Rightarrow> nat \<Rightarrow> string list \<Rightarrow> error + item list" where
  "context_loop all_lines i [] = Inr []"
| "context_loop all_lines i (l # ls) =
     (if py_strip l = [] then context_loop all_lines (Suc i) ls
      else (case extract_item_with_patterns
                   (join_with '' '' (py_slice (i - 1) (i + 2) all_lines)) of
              Inl e \<Rightarrow> Inl e
            | Inr found \<Rightarrow>
                (case context_loop all_lines (Suc i) ls of
                   Inl e \<Rightarrow> Inl e
                 | Inr items \<Rightarrow>
                     Inr ((case found of
                             None \<Rightarrow> []
                           | Some it \<Rightarrow> if is_valid_item it then [it] else []) @ items))))"

definition extract_with_context :: "string list \<Rightarrow> error + item list" where
  "extract_with_context ls = context_loop ls 0 ls"

text \<open>\<open>_extract_from_mixed\<close>: the strategy with the most items wins, the earlier one on a
  tie; a strategy that raises is skipped.\<close>

definition extract_from_mixed :: "string list \<Rightarrow> item list" where
  "extract_from_mixed ls =
     foldl (\<lambda>items strategy.
              case strategy ls of
                Inl e \<Rightarrow> items
              | Inr strategy_items \<Rightarrow>
                  if length items < length strategy_items then strategy_items else items)
           [] [extract_with_line_breaks, extract_with_context, extract_with_patterns]"

subsection \<open>The entry point\<close>

text \<open>The body of the \<open>try\<close> of \<open>extract_budget_items\<close>. An empty format counts as none.\<close>

definition chosen_format :: "string option \<Rightarrow> string list \<Rightarrow> string" where
  "chosen_format format_type ls =
     (case format_type of
        None \<Rightarrow> detect_format ls
      | Some f \<Rightarrow> if f = [] then detect_format ls else f)"

definition extract_candidates :: "string \<Rightarrow> string list \<Rightarrow> error + item list" where
  "extract_candidates f ls =
     (if f = ''table'' then Inr (extract_from_table ls)
      else if f = ''list'' then extract_from_list ls
      else if f = ''mixed'' then Inr (extract_from_mixed ls)
      else extract_with_patterns ls)"

definition extract_budget_items_body :: "string \<Rightarrow> string option \<Rightarrow> error + item list" where
  "extract_budget_items_body t format_type =
     (case extract_candidates (chosen_format format_type (split_lines (clean_text t)))
                              (split_lines (clean_text t)) of
        Inl e \<Rightarrow> Inl e
      | Inr items \<Rightarrow> validate_and_clean_items items)"

text \<open>\<open>extract_budget_items\<close>: whatever the body raises is caught, and the empty list is
  returned.\<close>

definition extract_budget_items :: "string \<Rightarrow> string option \<Rightarrow> error + item list" where
  "extract_budget_items t format_type =
     (case extract_budget_items_body t format_type of
        Inl e \<Rightarrow> Inr []
      | Inr items \<Rightarrow> Inr items)"


subsection \<open>Example texts\<close>

text \<open>The table line of the first end-to-end scenario, and the same line as
  \<open>_clean_text\<close> leaves it.\<close>

definition table_line :: string where
  "table_line = ''01.01.01  Demolici'' @ [CHR 0xF3] @ ''n de concreto  10.00 m3  150.00  1500.00''"

definition cleaned_table_line :: string where
  "cleaned_table_line = ''01.01.01 Demolici'' @ [CHR 0xF3] @ ''n de concreto 10.00 m3 150.00 1500.00''"

definition work_code_line :: string where
  "work_code_line = ''AB1234 Concreto 100 m2''"

definition numbered_line :: string where
  "numbered_line = ''001 Concreto 100 50.00''"

definition work_code_item :: item where
  "work_code_item =
     \<lparr>code = ''AB1234'', description = ''Concreto'', unit = ''m2'',
      quantity = Some (Decimal False 100 0), unit_price = None, total_price = None\<rparr>"


section \<open>Layout classification (\<open>format_detector.py\<close>)\<close>

text \<open>\<open>needle in hay\<close> for two strings.\<close>

fun starts_with :: "string \<Rightarrow> string \<Rightarrow> bool" where
  "starts_with s [] = True"
| "starts_with [] (p # ps) = False"
| "starts_with (c # cs) (p # ps) = (c = p \<and> starts_with cs ps)"

fun py_in :: "string \<Rightarrow> string \<Rightarrow> bool" where
  "py_in needle [] = (needle = [])"
| "py_in needle (c # cs) = (starts_with (c # cs) needle \<or> py_in needle cs)"

text \<open>The values of the analysis dictionaries read by the score: truth values and
  counts.\<close>

datatype py_value = PBool bool | PInt int

text \<open>The truth value of \<open>d.get(key)\<close>: a missing key gives \<open>None\<close>, which is false.\<close>

definition py_truthy :: "py_value option \<Rightarrow> bool" where
  "py_truthy v = (case v of None \<Rightarrow> False | Some (PBool b) \<Rightarrow> b | Some (PInt n) \<Rightarrow> n \<noteq> 0)"

text \<open>
  Floats are kept as the rational numbers they stand for. \<open>float_of_rat\<close> is the double
  nearest to a rational number, which is what a decimal literal such as \<open>0.3\<close> denotes and
  what an addition of two doubles returns for their exact sum.
\<close>

definition float_of_rat :: "rat \<Rightarrow> rat" where
  "float_of_rat q = (case quotient_of q of (a, b) \<Rightarrow> py_truediv a b)"

definition float_add :: "rat \<Rightarrow> rat \<Rightarrow> rat" where
  "float_add x y = float_of_rat (x + y)"

subsection \<open>The known formats\<close>

record format_info =
  format_name :: string
  format_description :: string
  indicators :: "regex list"

text \<open>The euro sign is no character of the texts modelled here (code points up to U+00FF):
  the indicator that ends in the euro sign ends in a class that no character belongs to,
  the test for a euro sign in the text is false, and the class of the dollar and the euro
  sign holds the dollar sign only.\<close>

definition standard_table :: format_info where
  "standard_table =
     \<lparr>format_name = ''Tabla Est'' @ [CHR 0xE1] @ ''ndar'',
      format_description = ''Formato de tabla con columnas fijas'',
      indicators =
        [alts [lits ''Item'', lits (''C'' @ [CHR 0xF3] @ ''digo''), lits ''Code''],
         alts [lits (''Descripci'' @ [CHR 0xF3] @ ''n''), lits ''Description''],
         alts [lits ''Cantidad'', lits ''Quantity'', lits ''Qty''],
         alts [lits ''Unidad'', lits ''Unit''],
         alts [lits ''Precio'', lits ''Price'', lits ''Cost''],
         lits ''Total'']\<rparr>"

definition chapters_list :: format_info where
  "chapters_list =
     \<lparr>format_name = ''Lista por Cap'' @ [CHR 0xED] @ ''tulos'',
      format_description = ''Organizado por cap'' @ [CHR 0xED] @ ''tulos con items numerados'',
      indicators =
        [alts [lits (''Cap'' @ [CHR 0xED] @ ''tulo''), lits ''Chapter'', lits ''CAP''],
         cats [one_or_more digit, Lit (CHR ''.''), one_or_more digit, Lit (CHR ''.''), one_or_more digit],
         cats [WordB, one_or_more digit, Lit (CHR ''.''), one_or_more digit, WordB],
         cats [WordB, one_or_more digit, zero_or_more space,
               Class [Single (CHR ''.''), Single (CHR ''-'')]]]\<rparr>"

definition unit_prices :: format_info where
  "unit_prices =
     \<lparr>format_name = ''Precios Unitarios'',
      format_description = ''Lista de precios unitarios por partida'',
      indicators =
        [alts [lits ''Precio Unitario'', lits ''Unit Price''],
         cats [lits ''PU'', zero_or_more space, Lit (CHR ''='')],
         cats [Lit (CHR ''$''), zero_or_more space, one_or_more digit, Lit (CHR ''.''),
               between 2 2 digit],
         cats [one_or_more digit, Lit (CHR ''.''), between 2 2 digit, zero_or_more space,
               Class []]]\<rparr>"

definition detailed_breakdown :: format_info where
  "detailed_breakdown =
     \<lparr>format_name = ''Desglose Detallado'',
      format_description = ''Incluye desglose de materiales, mano de obra, etc.'',
      indicators =
        [alts [lits ''Materiales'', lits ''Materials''],
         alts [lits ''Mano de Obra'', lits ''Labor''],
         alts [lits ''Equipo'', lits ''Equipment''],
         alts [lits ''Indirectos'', lits ''Overhead'']]\<rparr>"

definition known_formats :: "(string \<times> format_info) list" where
  "known_formats =
     [(''standard_table'', standard_table), (''chapters_list'', chapters_list),
      (''unit_prices'', unit_prices), (''detailed_breakdown'', detailed_breakdown)]"

subsection \<open>The analyses\<close>

text \<open>
  Of \<open>_analyze_structure\<close>, the count of table lines and the entry
  \<open>has_table_structure\<close>: a line that is not blank counts when it holds at least two
  numbers (\<open>\d+(?:\.\d+)?\<close>) and at least four words, and the document has the structure of
  a table when these lines are more than 0.3 of all lines. The product \<open>len(lines) * 0.3\<close>
  is taken exactly. The other counters of the analysis reach the score only through the
  text of the dictionary (see \<open>calculate_format_score\<close>).
\<close>

definition is_table_line :: "string \<Rightarrow> bool" where
  "is_table_line line =
     (2 \<le> length (findall number no_flags line) \<and> 4 \<le> length (py_split line))"

definition table_lines :: "string list \<Rightarrow> nat" where
  "table_lines ls = length (filter (\<lambda>l. py_strip l \<noteq> [] \<and> is_table_line (py_strip l)) ls)"

definition has_table_structure :: "string list \<Rightarrow> bool" where
  "has_table_structure ls = ((of_nat (length ls) :: rat) * (3 / 10) < of_nat (table_lines ls))"

text \<open>\<open>_analyze_content\<close>: the dictionary with its ten keys, in the order of the source.\<close>

definition analyze_content :: "string \<Rightarrow> (string \<times> py_value) list" where
  "analyze_content t =
     [(''has_currency_symbols'', PBool (CHR ''$'' \<in> set t)),
      (''has_decimal_numbers'',
         PBool (0 < length (findall (cats [one_or_more digit, Lit (CHR ''.''), between 2 2 digit])
                                    no_flags t))),
      (''has_thousand_separators'',
         PBool (0 < length (findall (cats [digit, Lit (CHR '',''), between 3 3 digit]) no_flags t))),
      (''has_units'',
         PBool (list_ex (\<lambda>u. py_in u (py_lower t)) [''m2'', ''m3'', ''kg'', ''ml'', ''l'', ''un''])),
      (''has_chapter_headers'',
         PBool (0 < length (findall (Alt (lits (''CAP'' @ [CHR 0xCD] @ ''TULO'')) (lits ''CHAPTER''))
                                    no_flags t))),
      (''has_totals'', PBool (list_ex (\<lambda>w. py_in w t) [''TOTAL'', ''SUBTOTAL'', ''SUB-TOTAL''])),
      (''has_breakdown'',
         PBool (list_ex (\<lambda>w. py_in w t) [''MATERIALES'', ''MANO DE OBRA'', ''EQUIPO''])),
      (''currency_count'', PInt (int (length (findall (Class [Single (CHR ''$'')]) no_flags t)))),
      (''number_count'',
         PInt (int (length (findall (cats [one_or_more digit, Lit (CHR ''.''), one_or_more digit])
                                    no_flags t)))),
      (''unit_count'',
         PInt (int (length (finditer
           (cats [WordB,
                  Group 1 (alts [lits ''m2'', lits ''m3'', lits ''kg'', lits ''ml'', lits ''l'', lits ''un'']),
                  WordB])
           icase t))))]"

subsection \<open>The score of a format\<close>

text \<open>
  \<open>_calculate_format_score\<close>. The indicators are searched, ignoring case, in
  \<open>str(structure) + str(content)\<close>, the text of the two analysis dictionaries; this text is
  the parameter \<open>summary\<close>. The bonuses are read from \<open>content\<close> with \<open>content.get\<close>. The
  parameter \<open>patterns\<close> of the source is not used by it.
\<close>

definition indicator_hits :: "format_info \<Rightarrow> string \<Rightarrow> nat" where
  "indicator_hits info summary =
     length (filter (\<lambda>r. matches (re_search r icase summary)) (indicators info))"

definition indicator_score :: "format_info \<Rightarrow> string \<Rightarrow> rat" where
  "indicator_score info summary =
     (if indicators info = [] then 0
      else py_truediv (int (indicator_hits info summary)) (int (length (indicators info))))"

definition bonus :: "bool \<Rightarrow> rat \<Rightarrow> rat \<Rightarrow> rat" where
  "bonus applies addend score = (if applies then float_add score (float_of_rat addend) else score)"

definition calculate_format_score ::
  "format_info \<Rightarrow> string \<Rightarrow> (string \<times> py_value) list \<Rightarrow> rat" where
  "calculate_format_score info summary content =
     min (bonus (py_truthy (map_of content ''has_breakdown'')
                 \<and> py_in ''detallado'' (py_lower (format_name info))) (2 / 10)
           (bonus (py_truthy (map_of content ''has_list_structure'')
                   \<and> py_in ''list'' (py_lower (format_name info))) (3 / 10)
             (bonus (py_truthy (map_of content ''has_table_structure'')
                     \<and> py_in ''table'' (py_lower (format_name info))) (3 / 10)
               (indicator_score info summary))))
         1"


section \<open>Properties of the loader and of the recogniser's post-processing\<close>

lemma pages_from_text_length: "map text_length (pages_from n ts) = map length ts"
  by (induction ts arbitrary: n) simp_all

lemma pages_from_page_text: "map page_text (pages_from n ts) = ts"
  by (induction ts arbitrary: n) simp_all

lemma length_pages_from: "length (pages_from n ts) = length ts"
  by (induction ts arbitrary: n) simp_all

lemma average_text_length_pages_from:
  "doc_pages doc = pages_from 0 texts \<Longrightarrow>
   average_text_length doc = of_nat (sum_list (map length texts)) / of_nat (length texts)"
proof -
  assume a: "doc_pages doc = pages_from 0 texts"
  have "map (\<lambda>p. length (page_text p)) (pages_from 0 texts) = map length (map page_text (pages_from 0 texts))"
    by (simp add: comp_def)
  then show ?thesis
    by (simp add: average_text_length_def a pages_from_page_text length_pages_from)
qed

lemma read_pdf_stored:
  assumes "fs path = Some f" and "stored_size f \<le> max_file_size"
    and "stored_pages f = Some texts"
  shows "\<exists>doc. read_pdf fs path = Inr doc
           \<and> doc_pages doc = pages_from 0 texts
           \<and> total_pages doc = length texts
           \<and> is_scanned doc = detect_scanned_pdf (pages_from 0 texts)"
  using assms by (simp add: read_pdf_def Let_def length_pages_from)

lemma detect_scanned_pages_from:
  "texts \<noteq> [] \<Longrightarrow>
   detect_scanned_pdf (pages_from 0 texts)
     \<longleftrightarrow> (of_nat (sum_list (map length texts)) / of_nat (length texts) :: rat) < 100"
  by (cases texts)
     (simp_all add: detect_scanned_pdf_def Let_def pages_from_text_length length_pages_from
        del: pages_from.simps, simp)

text \<open>
  Claim C7. A file that holds at least one page is loaded, the pages of the document carry
  the texts of the file in their order, and \<open>is_scanned\<close> is set exactly when the average
  length of these texts is strictly below 100 characters; with an average of exactly 100
  the document is not scanned. The quotient is taken exactly.
\<close>

theorem scanned_iff_average_below_100:
  assumes "fs path = Some f" and "stored_size f \<le> max_file_size"
    and "stored_pages f = Some texts" and "texts \<noteq> []"
  shows "\<exists>doc. read_pdf fs path = Inr doc
           \<and> map page_text (doc_pages doc) = texts
           \<and> average_text_length doc = of_nat (sum_list (map length texts)) / of_nat (length texts)
           \<and> (is_scanned doc \<longleftrightarrow> average_text_length doc < 100)
           \<and> (average_text_length doc = 100 \<longrightarrow> \<not> is_scanned doc)"
proof -
  from read_pdf_stored [of fs path f texts] assms(1,2,3) obtain doc where r: "read_pdf fs path = Inr doc"
    and d: "doc_pages doc = pages_from 0 texts"
    and s: "is_scanned doc = detect_scanned_pdf (pages_from 0 texts)"
    by blast
  have t: "map page_text (doc_pages doc) = texts"
    by (simp add: d pages_from_page_text)
  have avg: "average_text_length doc = of_nat (sum_list (map length texts)) / of_nat (length texts)"
    using d by (rule average_text_length_pages_from)
  have iff: "is_scanned doc \<longleftrightarrow> average_text_length doc < 100"
    using detect_scanned_pages_from [OF assms(4)] by (simp add: s avg)
  then have "average_text_length doc = 100 \<longrightarrow> \<not> is_scanned doc" by simp
  with r t avg iff show ?thesis by blast
qed

theorem scanned_iff_average_below_100_witness:
  "(\<exists>doc. read_pdf example_fs ''a.pdf'' = Inr doc \<and> length (doc_pages doc) = 3
         \<and> average_text_length doc = 100 \<and> \<not> is_scanned doc)
   \<and> (\<exists>doc. read_pdf example_fs ''b.pdf'' = Inr doc \<and> length (doc_pages doc) = 2
         \<and> average_text_length doc = 199 / 2 \<and> is_scanned doc)"
proof -
  let ?fa = "\<lparr>stored_size = 2048,
              stored_pages = Some [replicate 150 (CHR ''x''), replicate 100 (CHR ''y''),
                                   replicate 50 (CHR ''z'')]\<rparr>"
  let ?ta = "[replicate 150 (CHR ''x''), replicate 100 (CHR ''y''), replicate 50 (CHR ''z'')]"
  let ?fb = "\<lparr>stored_size = 4096,
              stored_pages = Some [replicate 40 (CHR ''x''), replicate 159 (CHR ''y'')]\<rparr>"
  let ?tb = "[replicate 40 (CHR ''x''), replicate 159 (CHR ''y'')]"
  have a1: "example_fs ''a.pdf'' = Some ?fa" by (simp add: example_fs_def)
  have a2: "stored_size ?fa \<le> max_file_size" by (simp add: max_file_size_def)
  have a3: "stored_pages ?fa = Some ?ta" by simp
  have a4: "?ta \<noteq> []" by simp
  have b1: "example_fs ''b.pdf'' = Some ?fb" by (simp add: example_fs_def)
  have b2: "stored_size ?fb \<le> max_file_size" by (simp add: max_file_size_def)
  have b3: "stored_pages ?fb = Some ?tb" by simp
  have b4: "?tb \<noteq> []" by simp
  from scanned_iff_average_below_100 [of example_fs "''a.pdf''" ?fa ?ta, OF a1 a2 a3 a4]
  obtain da where pa: "read_pdf example_fs ''a.pdf'' = Inr da
           \<and> map page_text (doc_pages da) = ?ta
           \<and> average_text_length da = of_nat (sum_list (map length ?ta)) / of_nat (length ?ta)
           \<and> (is_scanned da \<longleftrightarrow> average_text_length da < 100)
           \<and> (average_text_length da = 100 \<longrightarrow> \<not> is_scanned da)" ..
  from scanned_iff_average_below_100 [of example_fs "''b.pdf''" ?fb ?tb, OF b1 b2 b3 b4]
  obtain db where pb: "read_pdf example_fs ''b.pdf'' = Inr db
           \<and> map page_text (doc_pages db) = ?tb
           \<and> average_text_length db = of_nat (sum_list (map length ?tb)) / of_nat (length ?tb)
           \<and> (is_scanned db \<longleftrightarrow> average_text_length db < 100)
           \<and> (average_text_length db = 100 \<longrightarrow> \<not> is_scanned db)" ..
  from pa have da: "read_pdf example_fs ''a.pdf'' = Inr da"
    and ta: "map page_text (doc_pages da) = ?ta"
    and va: "average_text_length da = of_nat (sum_list (map length ?ta)) / of_nat (length ?ta)"
    and ia: "is_scanned da \<longleftrightarrow> average_text_length da < 100"
    by (rule conjunct1, rule conjunct2 [THEN conjunct1],
        rule conjunct2 [THEN conjunct2, THEN conjunct1],
        rule conjunct2 [THEN conjunct2, THEN conjunct2, THEN conjunct1])
  from pb have db: "read_pdf example_fs ''b.pdf'' = Inr db"
    and tb: "map page_text (doc_pages db) = ?tb"
    and vb: "average_text_length db = of_nat (sum_list (map length ?tb)) / of_nat (length ?tb)"
    and ib: "is_scanned db \<longleftrightarrow> average_text_length db < 100"
    by (rule conjunct1, rule conjunct2 [THEN conjunct1],
        rule conjunct2 [THEN conjunct2, THEN conjunct1],
        rule conjunct2 [THEN conjunct2, THEN conjunct2, THEN conjunct1])
  from ta have la: "length (doc_pages da) = 3" by (metis length_map length_Cons list.size(3) numeral_3_eq_3)
  from tb have lb: "length (doc_pages db) = 2" by (metis length_map length_Cons list.size(3) numeral_2_eq_2)
  from va have va': "average_text_length da = 100" by simp
  from vb have vb': "average_text_length db = 199 / 2" by simp
  from ia va' have na: "\<not> is_scanned da" by simp
  from ib vb' have sb: "is_scanned db" by simp
  from da la va' na db lb vb' sb show ?thesis by blast
qed

lemma ocr_loop_counted:
  "ocr_loop rs (ws, t, n) =
     (ws @ map word_of_row (counted_rows rs),
      t + sum_list (map row_conf (counted_rows rs)),
      n + length (counted_rows rs))"
  by (induction rs arbitrary: ws t n) (simp_all add: counted_rows_def Let_def word_of_row_def)

lemma bit_length_0: "bit_length 0 = 0"
  by (simp add: bit_length.simps)

lemma bit_length_pos: "0 < n \<Longrightarrow> bit_length n = Suc (bit_length (n div 2))"
  by (subst bit_length.simps) simp

lemmas float_eval =
  py_truediv_def nat_truediv_def float_exponent_def round_half_even_def bit_length_0 bit_length_pos

text \<open>
  Claim C8, as amended. The aggregate confidence is the mean of the confidence of the tokens
  whose confidence is strictly positive and whose text is not blank, as the float division
  of their sum by their number gives it, and it is 0 when there is no such token.
\<close>

theorem average_confidence_counted:
  "average_confidence (process_ocr_data ocr_data) =
     (if counted_rows ocr_data = [] then 0
      else py_truediv (sum_list (map row_conf (counted_rows ocr_data)))
                      (int (length (counted_rows ocr_data))))"
  by (simp add: process_ocr_data_def ocr_loop_counted)

theorem average_confidence_counted_witness:
  "average_confidence (process_ocr_data example_rows) = 90
   \<and> average_confidence (process_ocr_data thirds_rows) = 6380099472108203 / 2 ^ 46"
  using average_confidence_counted [of example_rows] average_confidence_counted [of thirds_rows]
  by (simp add: example_rows_def thirds_rows_def counted_rows_def py_strip_def is_space_def
      cp_def float_eval)

text \<open>
  Claim C8 as stated fails: a token of confidence 50 whose text is one blank is left out of
  the mean, which is 90 and not 70.
\<close>

theorem average_confidence_counterexample:
  "average_confidence (process_ocr_data example_rows) = 90
   \<and> mean_positive_confidence example_rows = 70"
  by (simp add: process_ocr_data_def ocr_loop_counted example_rows_def counted_rows_def
      mean_positive_confidence_def py_strip_def is_space_def cp_def float_eval)

lemma batch_loop_map:
  "batch_loop recognise ps results = results @ map (page_entry_of recognise) ps"
  by (induction ps arbitrary: results) (simp_all add: page_entry_of_def split: sum.splits)

text \<open>
  Claim C9. Batch processing returns one entry per input path, in the order of the input. The
  entry of a page whose processing raises is an error entry with the path, the message,
  an empty text and confidence 0; the entry of any other page is its own result, whatever
  happens to the pages around it.
\<close>

theorem batch_one_result_per_page:
  "length (batch_process_images recognise image_paths) = length image_paths
   \<and> (\<forall>i < length image_paths.
        (\<forall>e. process_image recognise (image_paths ! i) = Inl e \<longrightarrow>
             batch_process_images recognise image_paths ! i = Page_error (image_paths ! i) e [] 0)
      \<and> (\<forall>r. process_image recognise (image_paths ! i) = Inr r \<longrightarrow>
             batch_process_images recognise image_paths ! i = Page_ok r))"
  by (simp add: batch_process_images_def batch_loop_map page_entry_of_def)

theorem batch_one_result_per_page_witness:
  "length (batch_process_images example_recogniser [''p1.png'', ''bad.png'', ''p3.png'']) = 3
   \<and> batch_process_images example_recogniser [''p1.png'', ''bad.png'', ''p3.png''] ! 1
       = Page_error ''bad.png'' ''cannot identify image file'' [] 0
   \<and> (\<exists>r. batch_process_images example_recogniser [''p1.png'', ''bad.png'', ''p3.png''] ! 2 = Page_ok r)"
proof -
  let ?ps = "[''p1.png'', ''bad.png'', ''p3.png'']"
  note t = batch_one_result_per_page [of example_recogniser ?ps]
  have bad: "process_image example_recogniser (?ps ! 1) = Inl ''cannot identify image file''"
    by (simp add: process_image_def example_recogniser_def)
  obtain r where ok: "process_image example_recogniser (?ps ! 2) = Inr r"
    by (simp add: process_image_def example_recogniser_def Let_def)
  from t have len: "length (batch_process_images example_recogniser ?ps) = 3" by simp
  from t have a: "\<forall>i < length ?ps.
        (\<forall>e. process_image example_recogniser (?ps ! i) = Inl e \<longrightarrow>
             batch_process_images example_recogniser ?ps ! i = Page_error (?ps ! i) e [] 0)
      \<and> (\<forall>r. process_image example_recogniser (?ps ! i) = Inr r \<longrightarrow>
             batch_process_images example_recogniser ?ps ! i = Page_ok r)" by blast
  have i1: "(1::nat) < length ?ps" and i2: "(2::nat) < length ?ps" by simp_all
  from a i1 bad have e1: "batch_process_images example_recogniser ?ps ! 1
       = Page_error (?ps ! 1) ''cannot identify image file'' [] 0" by blast
  from a i2 ok have e2: "batch_process_images example_recogniser ?ps ! 2 = Page_ok r" by blast
  from e1 have e1': "batch_process_images example_recogniser ?ps ! 1
       = Page_error ''bad.png'' ''cannot identify image file'' [] 0" by simp
  from len e1' e2 show ?thesis by blast
qed


section \<open>Evaluation rules\<close>

text \<open>Recursive functions over numerals are unfolded one step at a time, under the
  condition that decides the step.\<close>

lemma ndigits_less_10: "n < 10 \<Longrightarrow> ndigits n = 1"
  by (simp add: ndigits.simps)

lemma ndigits_ge_10: "10 \<le> n \<Longrightarrow> ndigits n = Suc (ndigits (n div 10))"
  by (subst ndigits.simps) simp

lemma str_nat_less_10: "n < 10 \<Longrightarrow> str_nat n = [digit_char n]"
  by (simp add: str_nat.simps)

lemma str_nat_ge_10: "10 \<le> n \<Longrightarrow> str_nat n = str_nat (n div 10) @ [digit_char (n mod 10)]"
  by (subst str_nat.simps) simp

lemma replicate_num: "replicate (numeral k) c = c # replicate (pred_numeral k) c"
  by (simp add: numeral_eq_Suc)

lemmas decimal_eval =
  dec_mul_def dec_fix_def dec_prec_def dec_Etop_def dec_Emax_def dec_Etiny_def dec_Emin_def
  dec_truthy_def dec_positive_def opt_truthy_def ndigits_less_10 ndigits_ge_10

lemmas text_eval =
  py_strip_def sub_spaces_def is_space_def cp_def py_lower_def py_lower_char_def
  is_decimal_digit_def py_isdigit_def char_of_def bit_Suc_0_iff replicate_num

lemmas item_eval =
  validate_and_clean_items_def is_valid_item_def clean_item_def unit_mapping_def item_len_def
  fmt_03d_def str_nat_less_10 str_nat_ge_10 digit_char_def item_key_def


section \<open>Whitespace normalisation\<close>

lemma dropWhile_all_iff: "(\<forall>c \<in> set (dropWhile P s). P c) \<longleftrightarrow> (\<forall>c \<in> set s. P c)"
  by (induction s) auto

lemma py_strip_Nil_iff: "py_strip s = [] \<longleftrightarrow> (\<forall>c \<in> set s. is_space c)"
proof -
  have "py_strip s = [] \<longleftrightarrow> (\<forall>c \<in> set (dropWhile is_space s). is_space c)"
    by (simp add: py_strip_def dropWhile_eq_Nil_conv)
  then show ?thesis by (simp add: dropWhile_all_iff)
qed

lemma is_space_blank: "is_space (CHR '' '')"
  by (simp add: is_space_def cp_def)

lemma sub_spaces_from_keeps:
  "(\<exists>c \<in> set (sub_spaces_from b s). \<not> is_space c) \<longleftrightarrow> (\<exists>c \<in> set s. \<not> is_space c)"
  by (induction s arbitrary: b) (auto simp: is_space_blank)

lemma strip_sub_spaces_Nil_iff: "py_strip (sub_spaces s) = [] \<longleftrightarrow> py_strip s = []"
  using sub_spaces_from_keeps [of False s] by (auto simp: py_strip_Nil_iff sub_spaces_def)

lemma singly_spaced_sub: "singly_spaced b (sub_spaces_from b s)"
  by (induction s arbitrary: b) (simp_all add: is_space_blank)

lemma sub_spaces_from_fixed: "singly_spaced b s \<Longrightarrow> sub_spaces_from b s = s"
  by (induction s arbitrary: b) (auto split: if_splits)

lemma singly_spaced_dropWhile: "singly_spaced b s \<Longrightarrow> singly_spaced b' (dropWhile is_space s)"
  by (induction s arbitrary: b) (auto split: if_splits)

lemma singly_spaced_prefix: "singly_spaced b (xs @ ys) \<Longrightarrow> singly_spaced b xs"
  by (induction xs arbitrary: b) (auto split: if_splits)

lemma rev_dropWhile_rev_prefix: "\<exists>zs. s = rev (dropWhile P (rev s)) @ zs"
proof -
  have "rev s = takeWhile P (rev s) @ dropWhile P (rev s)" by simp
  then have "s = rev (dropWhile P (rev s)) @ rev (takeWhile P (rev s))"
    by (metis rev_append rev_rev_ident)
  then show ?thesis by blast
qed

lemma singly_spaced_strip: "singly_spaced b s \<Longrightarrow> singly_spaced b' (py_strip s)"
proof -
  assume "singly_spaced b s"
  then have a: "singly_spaced b' (dropWhile is_space s)" by (rule singly_spaced_dropWhile)
  obtain zs where "dropWhile is_space s = py_strip s @ zs"
    using rev_dropWhile_rev_prefix [of "dropWhile is_space s" is_space] unfolding py_strip_def by blast
  with a show ?thesis by (metis singly_spaced_prefix)
qed

lemma dropWhile_fixed: "(s \<noteq> [] \<Longrightarrow> \<not> P (hd s)) \<Longrightarrow> dropWhile P s = s"
  by (cases s) auto

lemma py_strip_idem: "py_strip (py_strip s) = py_strip s"
proof -
  let ?t = "dropWhile is_space s"
  let ?u = "rev (dropWhile is_space (rev ?t))"
  have t: "?t \<noteq> [] \<Longrightarrow> \<not> is_space (hd ?t)" by (rule hd_dropWhile)
  have ru: "rev ?u \<noteq> [] \<Longrightarrow> \<not> is_space (hd (rev ?u))"
    using hd_dropWhile [of is_space "rev ?t"] by simp
  obtain zs where z: "?t = ?u @ zs" using rev_dropWhile_rev_prefix [of ?t is_space] by blast
  have "?u \<noteq> [] \<Longrightarrow> hd ?u = hd ?t" using z by (metis hd_append2)
  moreover have "?u \<noteq> [] \<Longrightarrow> ?t \<noteq> []" using z by (metis append_is_Nil_conv)
  ultimately have "?u \<noteq> [] \<Longrightarrow> \<not> is_space (hd ?u)" using t by metis
  then have 1: "dropWhile is_space ?u = ?u" by (rule dropWhile_fixed)
  have 2: "dropWhile is_space (rev ?u) = rev ?u" using ru by (rule dropWhile_fixed)
  have "py_strip ?u = ?u" unfolding py_strip_def 1 2 by simp
  then show ?thesis by (simp add: py_strip_def)
qed

lemma clean_description_idem:
  "py_strip (sub_spaces (py_strip (sub_spaces d))) = py_strip (sub_spaces d)"
proof -
  have "singly_spaced False (sub_spaces d)" by (simp add: sub_spaces_def singly_spaced_sub)
  then have "singly_spaced False (py_strip (sub_spaces d))" by (rule singly_spaced_strip)
  then have "sub_spaces (py_strip (sub_spaces d)) = py_strip (sub_spaces d)"
    by (simp add: sub_spaces_def sub_spaces_from_fixed)
  then show ?thesis by (simp add: py_strip_idem)
qed


section \<open>Validation and cleaning of candidates\<close>

lemma unit_mapping_values_fixed:
  "map_of unit_mapping u = Some v \<Longrightarrow> map_of unit_mapping (py_lower v) = None"
  by (auto simp: unit_mapping_def py_lower_def py_lower_char_def cp_def split: if_splits)

lemma clean_item_fields:
  assumes "clean_item it = Inr c"
  shows "description c = py_strip (sub_spaces (description it))"
    and "unit c = (case map_of unit_mapping (py_lower (unit it)) of Some v \<Rightarrow> v | None \<Rightarrow> unit it)"
    and "quantity c = quantity it"
    and "unit_price c = unit_price it"
    and "code c = (if code it = [] then ''AUTO_'' @ fmt_03d (6 + 1) else code it)"
    and "opt_truthy (quantity it) \<and> opt_truthy (unit_price it) \<and> \<not> opt_truthy (total_price it)
          \<Longrightarrow> \<exists>t. dec_mul (the (quantity it)) (the (unit_price it)) = Inr t \<and> total_price c = Some t"
    and "\<not> (opt_truthy (quantity it) \<and> opt_truthy (unit_price it) \<and> \<not> opt_truthy (total_price it))
          \<Longrightarrow> total_price c = total_price it"
  using assms
  by (auto simp: clean_item_def Let_def item_len_def split: if_splits sum.splits option.splits)

lemma clean_item_total:
  assumes "description it = py_strip (sub_spaces (description it))"
    and "map_of unit_mapping (py_lower (unit it)) = None"
    and "code it \<noteq> []"
    and "opt_truthy (quantity it) \<and> opt_truthy (unit_price it) \<and> \<not> opt_truthy (total_price it)
          \<Longrightarrow> dec_mul (the (quantity it)) (the (unit_price it)) = Inr (the (total_price it)) \<and> total_price it \<noteq> None"
  shows "clean_item it = Inr it"
  using assms
  by (auto simp: clean_item_def Let_def item_len_def split: if_splits sum.splits)

lemma clean_item_idem:
  assumes "clean_item it = Inr c"
  shows "clean_item c = Inr c"
proof (rule clean_item_total)
  note f = clean_item_fields [OF assms]
  show "description c = py_strip (sub_spaces (description c))"
    by (simp add: f(1) clean_description_idem)
  show "map_of unit_mapping (py_lower (unit c)) = None"
    by (simp add: f(2) unit_mapping_values_fixed split: option.splits)
  show "code c \<noteq> []" by (simp add: f(5))
  show "dec_mul (the (quantity c)) (the (unit_price c)) = Inr (the (total_price c)) \<and> total_price c \<noteq> None"
    if a: "opt_truthy (quantity c) \<and> opt_truthy (unit_price c) \<and> \<not> opt_truthy (total_price c)"
  proof (cases "opt_truthy (quantity it) \<and> opt_truthy (unit_price it) \<and> \<not> opt_truthy (total_price it)")
    case True
    from f(6) [OF True] show ?thesis by (auto simp: f(3) f(4))
  next
    case False
    from f(7) [OF False] a False show ?thesis by (simp add: f(3) f(4))
  qed
qed

lemma clean_item_valid:
  assumes "clean_item it = Inr c" and "is_valid_item it"
  shows "is_valid_item c"
  using assms(2) clean_item_fields(1,3,4) [OF assms(1)]
  by (simp add: is_valid_item_def strip_sub_spaces_Nil_iff py_strip_idem)

lemma validated_items_sound:
  "validated_items its = Inr out \<Longrightarrow> \<forall>c \<in> set out. is_valid_item c \<and> clean_item c = Inr c"
proof (induction its arbitrary: out)
  case Nil
  then show ?case by simp
next
  case (Cons it its)
  then show ?case
    by (auto simp: clean_item_idem clean_item_valid split: if_splits sum.splits)
qed

lemma validated_items_fixed:
  "\<forall>c \<in> set out. is_valid_item c \<and> clean_item c = Inr c \<Longrightarrow> validated_items out = Inr out"
  by (induction out) simp_all

lemma unique_items_subset: "set (unique_items seen its) \<subseteq> set its"
  by (induction its arbitrary: seen) auto

lemma unique_items_keys:
  "distinct (map item_key (unique_items seen its)) \<and> (\<forall>c \<in> set (unique_items seen its). item_key c \<notin> seen)"
proof (induction its arbitrary: seen)
  case Nil
  then show ?case by simp
next
  case (Cons it its)
  show ?case
  proof (cases "item_key it \<in> seen")
    case True
    then show ?thesis using Cons.IH [of seen] by simp
  next
    case False
    then show ?thesis using Cons.IH [of "insert (item_key it) seen"] by auto
  qed
qed

lemma unique_items_fixed:
  "distinct (map item_key its) \<Longrightarrow> \<forall>c \<in> set its. item_key c \<notin> seen \<Longrightarrow> unique_items seen its = its"
proof (induction its arbitrary: seen)
  case Nil
  then show ?case by simp
next
  case (Cons it its)
  from Cons.prems have d: "distinct (map item_key its)" and n: "item_key it \<notin> item_key ` set its"
    and s: "item_key it \<notin> seen" and r: "\<forall>c \<in> set its. item_key c \<notin> seen"
    by auto
  from n r have "\<forall>c \<in> set its. item_key c \<notin> insert (item_key it) seen"
    by (metis image_eqI insertE)
  with d have "unique_items (insert (item_key it) seen) its = its" by (rule Cons.IH)
  with s show ?case by simp
qed

lemma unique_items_idem: "unique_items {} (unique_items {} its) = unique_items {} its"
  using unique_items_keys [of "{}" its] by (simp add: unique_items_fixed)

lemma validate_and_clean_sound:
  assumes "validate_and_clean_items items = Inr out"
  shows "\<forall>c \<in> set out. is_valid_item c \<and> clean_item c = Inr c"
proof -
  from assms obtain v where v: "validated_items items = Inr v" and o: "out = unique_items {} v"
    by (auto simp: validate_and_clean_items_def split: sum.splits)
  from validated_items_sound [OF v] unique_items_subset [of "{}" v] show ?thesis
    unfolding o by blast
qed


section \<open>Evaluation rules for patterns and extraction\<close>

lemma rep_list_lo_num:
  "rep_list f g (numeral k) extra st = concat (map (rep_list f g (pred_numeral k) extra) (f st))"
  by (simp add: numeral_eq_Suc)

lemma rep_list_lo_1:
  "rep_list f g 1 extra st = concat (map (rep_list f g 0 extra) (f st))"
  by (metis One_nat_def rep_list.simps(1))

lemma rep_list_extra_num:
  "rep_list f g 0 (numeral k) st =
     (let further = concat (map (rep_list f g 0 (pred_numeral k))
                                (filter (\<lambda>st'. pos st < pos st') (f st)))
      in if g then further @ [st] else st # further)"
  by (simp add: numeral_eq_Suc)

lemma rep_list_extra_1:
  "rep_list f g 0 1 st =
     (let further = concat (map (rep_list f g 0 0)
                                (filter (\<lambda>st'. pos st < pos st') (f st)))
      in if g then further @ [st] else st # further)"
  by (metis One_nat_def rep_list.simps(3))

lemmas regex_eval =
  rep_list_lo_num rep_list_lo_1 rep_list_extra_num rep_list_extra_1
  step_char_def lit_matches_def class_matches_def at_word_boundary_def at_line_start_def
  at_line_end_def is_word_def py_upper_char_def match_here_def re_match_def re_search_def
  finditer_def findall_def re_sub_def re_split_def group_text_def no_flags_def icase_def
  icase_multiline_def digit_def space_def one_or_more_def zero_or_more_def optional_def
  one_or_more_lazy_def between_def

lemmas pattern_eval =
  number_def dotted_number_def amount_def unit_names_def work_code_def price_chars_def
  currency_patterns_def control_chars_def column_separator_def list_patterns_def
  budget_patterns_def common_units_def

lemmas extractor_eval =
  split_lines_def py_split_def py_slice_def nat_of_digits_def py_decimal_def clean_price_def
  matches_def is_table_row_def is_list_item_def detect_format_def
  split_table_row_def table_prices_def parse_table_columns_body_def parse_table_columns_def
  list_item_of_def parse_list_item_def extract_from_list_def extract_item_with_patterns_def
  named_def decimal_of_def pattern_item_def extract_with_patterns_def is_new_item_line_def
  parse_buffered_lines_def flush_buffer_def extract_with_line_breaks_def
  extract_with_context_def extract_from_mixed_def chosen_format_def extract_candidates_def


section \<open>Properties of the normaliser\<close>

lemma clean_item_auto_code:
  "clean_item it = Inr c \<Longrightarrow> code it = [] \<Longrightarrow> code c = ''AUTO_007''"
proof -
  assume a: "clean_item it = Inr c" and b: "code it = []"
  have "fmt_03d 7 = ''007''" by (simp add: item_eval text_eval)
  with clean_item_fields(5) [OF a] b show ?thesis by simp
qed

text \<open>
  Claim C4 fails on the code. The number inside the placeholder is \<open>len(cleaned) + 1\<close>, the
  number of keys of the item plus one, so every candidate lacking a code receives the same
  code \<open>AUTO_007\<close>: here two such candidates, which the claim wants numbered in sequence.
\<close>

theorem auto_code_is_always_007:
  "map_sum id (map code) (validate_and_clean_items codeless_candidates)
     = Inr [''AUTO_007'', ''AUTO_007'']"
  by (simp add: codeless_candidates_def item_eval text_eval decimal_eval)

text \<open>
  Claim C5. When the normaliser returns a list, applying it to that list returns the same
  list: no item is dropped, changed or reordered, and no key repeats.
\<close>

theorem validate_and_clean_idempotent:
  assumes "validate_and_clean_items items = Inr out"
  shows "validate_and_clean_items out = Inr out"
proof -
  from assms obtain v where o: "out = unique_items {} v"
    by (auto simp: validate_and_clean_items_def split: sum.splits)
  have "validated_items out = Inr out"
    using validate_and_clean_sound [OF assms] by (rule validated_items_fixed)
  then show ?thesis
    by (simp add: validate_and_clean_items_def o unique_items_idem)
qed

theorem validate_and_clean_idempotent_witness:
  "validate_and_clean_items example_candidates = Inr example_cleaned
   \<and> validate_and_clean_items example_cleaned = Inr example_cleaned"
proof -
  have a: "validate_and_clean_items example_candidates = Inr example_cleaned"
    by (simp add: example_candidates_def example_cleaned_def item_eval text_eval decimal_eval)
  from validate_and_clean_idempotent [OF a] a show ?thesis by simp
qed


section \<open>Properties of the extraction\<close>

lemma dec_positive_iff: "dec_positive d \<longleftrightarrow> 0 < dec_value d"
  by (cases d) (auto simp: dec_positive_def dec_value_def zero_less_mult_iff)

lemma extract_budget_items_sound:
  assumes "extract_budget_items t format_type = Inr items"
  shows "\<forall>c \<in> set items. is_valid_item c \<and> clean_item c = Inr c"
proof (cases "extract_budget_items_body t format_type")
  case (Inl e)
  with assms have "items = []" by (simp add: extract_budget_items_def)
  then show ?thesis by simp
next
  case (Inr found)
  with assms have i: "items = found" by (simp add: extract_budget_items_def)
  from Inr obtain candidates where "validate_and_clean_items candidates = Inr found"
    by (auto simp: extract_budget_items_body_def split: sum.splits)
  then show ?thesis unfolding i by (rule validate_and_clean_sound)
qed

lemma valid_item_amount:
  assumes "is_valid_item c"
  shows "(\<exists>q. quantity c = Some q \<and> 0 < dec_value q) \<or> (\<exists>p. unit_price c = Some p \<and> 0 < dec_value p)"
  using assms by (auto simp: is_valid_item_def Let_def dec_positive_iff split: option.splits)

lemma eval_work_code_line:
  "extract_budget_items work_code_line None = Inr [work_code_item]"
  by (simp add: work_code_line_def work_code_item_def extract_budget_items_def extract_budget_items_body_def
      clean_text_def extractor_eval regex_eval text_eval pattern_eval item_eval decimal_eval)

lemma clean_table_line: "clean_text table_line = cleaned_table_line"
  by (simp add: table_line_def cleaned_table_line_def clean_text_def control_chars_def regex_eval text_eval)

lemma split_lines_cleaned_table_line: "split_lines cleaned_table_line = [cleaned_table_line]"
  by (simp add: cleaned_table_line_def split_lines_def)

lemma split_cleaned_table_line: "split_table_row cleaned_table_line = [cleaned_table_line]"
  by (simp add: cleaned_table_line_def split_table_row_def column_separator_def regex_eval text_eval)

text \<open>
  Claim C1 as stated fails: from the list line \<open>001 Concreto 100 50.00\<close> the pipeline
  returns an item whose unit is empty and whose unit price is absent.
\<close>

theorem item_without_unit_and_price:
  "extract_budget_items numbered_line (Some ''list'') =
     Inr [\<lparr>code = ''001'', description = ''Concreto'', unit = [],
           quantity = Some (Decimal False 100 0), unit_price = None, total_price = None\<rparr>]"
  by (simp add: numbered_line_def extract_budget_items_def extract_budget_items_body_def
      clean_text_def extractor_eval regex_eval text_eval pattern_eval item_eval decimal_eval)

text \<open>
  Claim C1, as amended. Every item the pipeline returns has a quantity that is present and
  positive or a unit price that is present and positive; nothing is promised about the
  other amount and about the unit.
\<close>

theorem extracted_item_has_an_amount:
  assumes "extract_budget_items t format_type = Inr items" and "it \<in> set items"
  shows "(\<exists>q. quantity it = Some q \<and> 0 < dec_value q)
       \<or> (\<exists>p. unit_price it = Some p \<and> 0 < dec_value p)"
  using extract_budget_items_sound [OF assms(1)] assms(2) valid_item_amount by blast

theorem extracted_item_has_an_amount_witness:
  "extract_budget_items work_code_line None = Inr [work_code_item]
   \<and> ((\<exists>q. quantity work_code_item = Some q \<and> 0 < dec_value q)
      \<or> (\<exists>p. unit_price work_code_item = Some p \<and> 0 < dec_value p))"
proof -
  have m: "work_code_item \<in> set [work_code_item]" by simp
  from extracted_item_has_an_amount [OF eval_work_code_line m] eval_work_code_line
  show ?thesis by blast
qed

text \<open>
  Claim C2. Every item the pipeline returns has a description that is not empty, also after
  its whitespace is collapsed and stripped (which leaves it as it is), and a quantity that
  is present and positive or a unit price that is present and positive.
\<close>

theorem extracted_items_valid:
  assumes "extract_budget_items t format_type = Inr items"
  shows "\<forall>it \<in> set items.
           description it \<noteq> []
         \<and> py_strip (sub_spaces (description it)) = description it
         \<and> ((\<exists>q. quantity it = Some q \<and> 0 < dec_value q)
            \<or> (\<exists>p. unit_price it = Some p \<and> 0 < dec_value p))"
proof
  fix it assume m: "it \<in> set items"
  with extract_budget_items_sound [OF assms] have v: "is_valid_item it" and c: "clean_item it = Inr it"
    by blast+
  from v have s: "py_strip (description it) \<noteq> []" by (simp add: is_valid_item_def Let_def)
  then have d: "description it \<noteq> []" by (auto simp: py_strip_def)
  from clean_item_fields(1) [OF c] have f: "py_strip (sub_spaces (description it)) = description it"
    by simp
  from d f valid_item_amount [OF v]
  show "description it \<noteq> []
         \<and> py_strip (sub_spaces (description it)) = description it
         \<and> ((\<exists>q. quantity it = Some q \<and> 0 < dec_value q)
            \<or> (\<exists>p. unit_price it = Some p \<and> 0 < dec_value p))"
    by blast
qed

theorem extracted_items_valid_witness:
  "extract_budget_items work_code_line None = Inr [work_code_item]
   \<and> description work_code_item \<noteq> []
   \<and> py_strip (sub_spaces (description work_code_item)) = description work_code_item
   \<and> ((\<exists>q. quantity work_code_item = Some q \<and> 0 < dec_value q)
      \<or> (\<exists>p. unit_price work_code_item = Some p \<and> 0 < dec_value p))"
proof -
  have m: "work_code_item \<in> set [work_code_item]" by simp
  from extracted_items_valid [OF eval_work_code_line] m eval_work_code_line
  show ?thesis by blast
qed

text \<open>
  Claim C3 fails on the code. \<open>_clean_text\<close> turns every run of whitespace into one space
  before the line is cut into columns at two or more spaces, so the line of the scenario
  is a single column and the table extraction returns no item at all.
\<close>

theorem table_line_yields_nothing:
  "extract_budget_items table_line (Some ''table'') = Inr []
   \<and> split_table_row (clean_text table_line) = [clean_text table_line]"
  by (simp add: extract_budget_items_def extract_budget_items_body_def clean_table_line
      split_lines_cleaned_table_line split_cleaned_table_line chosen_format_def
      extract_candidates_def validate_and_clean_items_def)

text \<open>
  Claim C10. \<open>extract_budget_items\<close> always returns a list: the list of the body of its
  \<open>try\<close> when the body returns, and the empty list when the body raises. The empty list
  is also what an empty text gives, whose body returns without an error.
\<close>

theorem extract_budget_items_never_raises:
  "extract_budget_items t format_type =
     Inr (case extract_budget_items_body t format_type of Inl e \<Rightarrow> [] | Inr items \<Rightarrow> items)
   \<and> extract_budget_items_body [] None = Inr []
   \<and> extract_budget_items [] None = Inr []"
proof -
  have b: "extract_budget_items_body [] None = Inr []"
    by (simp add: extract_budget_items_body_def clean_text_def extractor_eval regex_eval
        text_eval pattern_eval item_eval)
  have g: "\<And>t format_type. extract_budget_items t format_type =
     Inr (case extract_budget_items_body t format_type of Inl e \<Rightarrow> [] | Inr items \<Rightarrow> items)"
    by (simp add: extract_budget_items_def split: sum.splits)
  from b g [of t format_type] g [of "[]" None] show ?thesis by simp
qed


section \<open>Properties of the layout classification\<close>

lemma content_has_no_table_structure:
  "map_of (analyze_content t) ''has_table_structure'' = None"
  by (simp add: analyze_content_def)

lemma content_has_no_list_structure:
  "map_of (analyze_content t) ''has_list_structure'' = None"
  by (simp add: analyze_content_def)

lemma table_not_in_name: "py_in ''table'' (py_lower (format_name standard_table)) = False"
  by (simp add: standard_table_def text_eval)

lemma detallado_not_in_table_name:
  "py_in ''detallado'' (py_lower (format_name standard_table)) = False"
  by (simp add: standard_table_def text_eval)

lemma one_table_line: "has_table_structure [''1 A 2 B'']"
  by (simp add: has_table_structure_def table_lines_def is_table_line_def number_def py_split_def
      regex_eval text_eval)

text \<open>
  Claim C6 fails on the code. The bonus of 0.3 is read from the content analysis, which has
  no entry \<open>has_table_structure\<close> (the entry belongs to the structure analysis), and asks
  for \<open>table\<close> inside the lower-case name of the format, which is Spanish: for every text, also one
  whose lines are all table lines, the score of the table format is the fraction of its
  indicators found and nothing more. Every score is at most 1.
\<close>

theorem table_bonus_is_never_added:
  "calculate_format_score standard_table summary (analyze_content t)
     = min (py_truediv (int (indicator_hits standard_table summary)) 6) 1
   \<and> calculate_format_score info summary content \<le> 1
   \<and> has_table_structure [''1 A 2 B'']"
proof -
  have n: "indicators standard_table \<noteq> []" and l: "length (indicators standard_table) = 6"
    by (simp_all add: standard_table_def)
  have "calculate_format_score standard_table summary (analyze_content t)
          = min (indicator_score standard_table summary) 1"
    by (simp add: calculate_format_score_def bonus_def content_has_no_table_structure
        content_has_no_list_structure detallado_not_in_table_name py_truthy_def)
  then have a: "calculate_format_score standard_table summary (analyze_content t)
          = min (py_truediv (int (indicator_hits standard_table summary)) 6) 1"
    by (simp add: indicator_score_def n l)
  have b: "calculate_format_score info summary content \<le> 1"
    by (simp add: calculate_format_score_def)
  from a b one_table_line show ?thesis by blast
qed

end
